theory Spec2Isabelle
  imports Complex_Main "HOL-Library.AList" "HOL-Library.Log_Nat"
begin

section \<open>JavaScript values\<close>

text \<open>
  The pipeline of \<^verbatim>\<open>src/index.js\<close> and of its second copy
  \<^verbatim>\<open>src/unnamed/part_000\<close> handles values that come out of \<^verbatim>\<open>JSON.parse\<close>
  and \<^verbatim>\<open>response.json()\<close>. A number is a rational, or one of the two infinities, or
  NaN; the rational stands for the binary64 number nearest to it, and arithmetic
  (\<open>d64\<close> below) rounds to binary64 as the language does. A value can also be an
  object or function of the standard library (\<open>JBuiltin\<close>, with the text that
  \<^verbatim>\<open>ToString\<close> gives for it): no JSON text produces one, but reading a property that
  every object inherits does. Strings are lists of 8-bit characters, read as ASCII.
\<close>

datatype jsnum = Fin rat | PosInf | NegInf | NaN

datatype jsval =
    JUndef
  | JNull
  | JBool bool
  | JNum jsnum
  | JStr string
  | JArr "jsval list"
  | JObj "(string \<times> jsval) list"
  | JBuiltin string

type_synonym obj = "(string \<times> jsval) list"

datatype error = TypeError | ReferenceError | ExternalError | NoObjectsDetected

text \<open>The outcome of awaiting an external call: it rejects, or it gives a value.\<close>

datatype 'a ext = Throws | Gives 'a

text \<open>Truthiness, as used by \<^verbatim>\<open>&&\<close>, \<^verbatim>\<open>||\<close>, \<^verbatim>\<open>!\<close> and \<^verbatim>\<open>if\<close>.\<close>

fun num_truthy :: "jsnum \<Rightarrow> bool" where
  "num_truthy (Fin q) = (q \<noteq> 0)"
| "num_truthy PosInf = True"
| "num_truthy NegInf = True"
| "num_truthy NaN = False"

fun truthy :: "jsval \<Rightarrow> bool" where
  "truthy JUndef = False"
| "truthy JNull = False"
| "truthy (JBool b) = b"
| "truthy (JNum n) = num_truthy n"
| "truthy (JStr s) = (s \<noteq> [])"
| "truthy (JArr vs) = True"
| "truthy (JObj kv) = True"
| "truthy (JBuiltin t) = True"

text \<open>
  Reading a property \<^verbatim>\<open>v.k\<close>. On \<^verbatim>\<open>undefined\<close> and \<^verbatim>\<open>null\<close> it raises a
  TypeError; on an object it gives the value stored under the key, or \<^verbatim>\<open>undefined\<close>.
  The keys that the program reads by name (\<^verbatim>\<open>lat\<close>, \<^verbatim>\<open>lng\<close>, \<^verbatim>\<open>data\<close>,
  \<^verbatim>\<open>title\<close>, ...) are names of no inherited property and of no built-in property
  of strings, arrays, numbers, booleans or functions, so there the result is
  \<^verbatim>\<open>undefined\<close>. Reading a key computed at run time is \<open>index_key\<close> below.
\<close>

definition field :: "obj \<Rightarrow> string \<Rightarrow> jsval" where
  "field kv k = (case map_of kv k of None \<Rightarrow> JUndef | Some v \<Rightarrow> v)"

fun get_prop :: "jsval \<Rightarrow> string \<Rightarrow> error + jsval" where
  "get_prop JUndef k = Inl TypeError"
| "get_prop JNull k = Inl TypeError"
| "get_prop (JObj kv) k = Inr (field kv k)"
| "get_prop v k = Inr JUndef"

text \<open>Number operations used by the renderer.\<close>

fun num_lt :: "jsnum \<Rightarrow> jsnum \<Rightarrow> bool" where
  "num_lt NaN b = False"
| "num_lt a NaN = False"
| "num_lt (Fin a) (Fin b) = (a < b)"
| "num_lt (Fin a) PosInf = True"
| "num_lt (Fin a) NegInf = False"
| "num_lt PosInf b = False"
| "num_lt NegInf NegInf = False"
| "num_lt NegInf b = True"

fun isNaN :: "jsnum \<Rightarrow> bool" where
  "isNaN NaN = True"
| "isNaN n = False"

subsection \<open>Binary64 arithmetic\<close>

text \<open>
  \<open>ilog2 a\<close> is \<open>\<lfloor>log\<^sub>2 a\<rfloor>\<close> for a positive rational, and \<open>pow2 e\<close> is \<open>2\<^sup>e\<close>.
\<close>

definition ilog2 :: "rat \<Rightarrow> int" where
  "ilog2 a = (if 1 \<le> a then bitlen \<lfloor>a\<rfloor> - 1 else - bitlen (\<lceil>1 / a\<rceil> - 1))"

definition pow2 :: "int \<Rightarrow> rat" where
  "pow2 e = (if 0 \<le> e then 2 ^ nat e else 1 / 2 ^ nat (- e))"

definition round_half_even :: "rat \<Rightarrow> int" where
  "round_half_even x =
     (let f = \<lfloor>x\<rfloor>; r = x - of_int f
      in if r < 1 / 2 then f else if 1 / 2 < r then f + 1 else if even f then f else f + 1)"

text \<open>
  The binary64 number nearest to a rational, ties to even: a significand of 53 bits,
  exponents down to the subnormal range (steps of 2 to the power -1074), and an
  infinity from 2 to the power 1024 on.
\<close>

definition d64 :: "rat \<Rightarrow> jsnum" where
  "d64 q =
     (if q = 0 then Fin 0
      else (let a = \<bar>q\<bar>;
                ex = max (ilog2 a - 52) (- 1074);
                v = of_int (round_half_even (a / pow2 ex)) * pow2 ex
            in if 2 ^ 1024 \<le> v then (if q < 0 then NegInf else PosInf)
               else Fin (if q < 0 then - v else v)))"

text \<open>\<^verbatim>\<open>x * 100\<close> and \<^verbatim>\<open>x - 10\<close> on binary64 numbers.\<close>

fun times100 :: "jsnum \<Rightarrow> jsnum" where
  "times100 (Fin q) = (case d64 q of Fin x \<Rightarrow> d64 (x * 100) | other \<Rightarrow> other)"
| "times100 n = n"

fun minus10 :: "jsnum \<Rightarrow> jsnum" where
  "minus10 (Fin q) = (case d64 q of Fin x \<Rightarrow> d64 (x - 10) | other \<Rightarrow> other)"
| "minus10 n = n"

text \<open>
  \<^verbatim>\<open>Math.round\<close>: the nearest integer, ties going up (\<open>\<lfloor>x + 1/2\<rfloor>\<close>); it is exact on
  a binary64 number.
\<close>

fun math_round :: "jsnum \<Rightarrow> jsnum" where
  "math_round (Fin q) = Fin (of_int \<lfloor>q + 1 / 2\<rfloor>)"
| "math_round n = n"

text \<open>
  \<^verbatim>\<open>ToNumber\<close>. The conversion of strings, arrays and objects is the parameter
  \<open>sn\<close> (the language's string-to-number parser), which no property below depends on.
\<close>

fun to_number :: "(jsval \<Rightarrow> jsnum) \<Rightarrow> jsval \<Rightarrow> jsnum" where
  "to_number sn JUndef = NaN"
| "to_number sn JNull = Fin 0"
| "to_number sn (JBool b) = Fin (if b then 1 else 0)"
| "to_number sn (JNum n) = n"
| "to_number sn v = sn v"

subsection \<open>Strings\<close>

fun digits :: "nat \<Rightarrow> string" where
  "digits n = (if n < 10 then [''0123456789'' ! n]
               else digits (n div 10) @ [''0123456789'' ! (n mod 10)])"

definition int_text :: "int \<Rightarrow> string" where
  "int_text i = (if i < 0 then ''-'' @ digits (nat (- i)) else digits (nat i))"

text \<open>
  \<^verbatim>\<open>ToString\<close> of a number. Integers below \<open>10\<^sup>2\<^sup>1\<close> print as their digits;
  the shortest-decimal rendering of every other finite number is the parameter \<open>ns\<close>.
\<close>

fun num_text :: "(rat \<Rightarrow> string) \<Rightarrow> jsnum \<Rightarrow> string" where
  "num_text ns NaN = ''NaN''"
| "num_text ns PosInf = ''Infinity''"
| "num_text ns NegInf = ''-Infinity''"
| "num_text ns (Fin q) =
     (if of_int \<lfloor>q\<rfloor> = q \<and> \<bar>q\<bar> < 10 ^ 21 then int_text \<lfloor>q\<rfloor> else ns q)"

fun join_with :: "string \<Rightarrow> string list \<Rightarrow> string" where
  "join_with sep [] = []"
| "join_with sep [s] = s"
| "join_with sep (s # t # ts) = s @ sep @ join_with sep (t # ts)"

text \<open>
  \<^verbatim>\<open>ToString\<close> of a value, and \<^verbatim>\<open>Array.prototype.join\<close>, which renders
  \<^verbatim>\<open>undefined\<close> and \<^verbatim>\<open>null\<close> elements as the empty string.
\<close>

fun to_string :: "(rat \<Rightarrow> string) \<Rightarrow> jsval \<Rightarrow> string" where
  "to_string ns JUndef = ''undefined''"
| "to_string ns JNull = ''null''"
| "to_string ns (JBool b) = (if b then ''true'' else ''false'')"
| "to_string ns (JNum n) = num_text ns n"
| "to_string ns (JStr s) = s"
| "to_string ns (JArr vs) =
     join_with '','' (map (\<lambda>v. if v = JUndef \<or> v = JNull then [] else to_string ns v) vs)"
| "to_string ns (JObj kv) = ''[object Object]''"
| "to_string ns (JBuiltin t) = t"

definition js_join :: "(rat \<Rightarrow> string) \<Rightarrow> string \<Rightarrow> jsval list \<Rightarrow> string" where
  "js_join ns sep vs =
     join_with sep (map (\<lambda>v. if v = JUndef \<or> v = JNull then [] else to_string ns v) vs)"


text \<open>
  The host functions that are not modelled in detail: the conversion of a non-numeric
  value to a number, the decimal rendering of a non-integer number, the properties
  that the standard library gives to arrays, strings, numbers and booleans (by value
  and property name), and the text of a member of \<^verbatim>\<open>Object.prototype\<close> (by name).
\<close>

record host =
  str_num :: "jsval \<Rightarrow> jsnum"
  num_str :: "rat \<Rightarrow> string"
  library_prop :: "jsval \<Rightarrow> string \<Rightarrow> jsval"
  prototype_text :: "string \<Rightarrow> string"

text \<open>
  Reading \<^verbatim>\<open>v[k]\<close> for a key computed at run time. On an object the own keys come
  first; a key that is not an own key but names a member of \<^verbatim>\<open>Object.prototype\<close>
  gives that member, which is truthy.
\<close>

definition object_prototype :: "string list" where
  "object_prototype =
     [''constructor'', ''__defineGetter__'', ''__defineSetter__'', ''hasOwnProperty'',
      ''__lookupGetter__'', ''__lookupSetter__'', ''isPrototypeOf'',
      ''propertyIsEnumerable'', ''toString'', ''valueOf'', ''__proto__'',
      ''toLocaleString'']"

fun index_key :: "host \<Rightarrow> jsval \<Rightarrow> string \<Rightarrow> error + jsval" where
  "index_key h JUndef k = Inl TypeError"
| "index_key h JNull k = Inl TypeError"
| "index_key h (JObj kv) k =
     (case map_of kv k of
        Some v \<Rightarrow> Inr v
      | None \<Rightarrow> Inr (if k \<in> set object_prototype then JBuiltin (prototype_text h k) else JUndef))"
| "index_key h v k = Inr (library_prop h v k)"

subsection \<open>Template literals and lexical scope\<close>

text \<open>
  A template literal is a list of literal pieces and interpolated identifiers. It is
  evaluated in the scope of the block it stands in, given by the string-valued
  bindings visible there; an identifier with no binding raises a ReferenceError.
  The module-level bindings of \<^verbatim>\<open>src/index.js\<close> (its imports, \<^verbatim>\<open>state\<close>,
  \<^verbatim>\<open>nodes\<close>, \<^verbatim>\<open>GEMINI_RESPONSE_SCHEMA\<close> and its functions) hold no string and are
  never interpolated, so they are left out of the scopes.
\<close>

datatype part = Lit string | Ref string

type_synonym scope = "(string \<times> string) list"

fun eval_template :: "scope \<Rightarrow> part list \<Rightarrow> error + string" where
  "eval_template sc [] = Inr []"
| "eval_template sc (Lit s # ps) =
     (case eval_template sc ps of Inl e \<Rightarrow> Inl e | Inr t \<Rightarrow> Inr (s @ t))"
| "eval_template sc (Ref x # ps) =
     (case map_of sc x of
        None \<Rightarrow> Inl ReferenceError
      | Some v \<Rightarrow> (case eval_template sc ps of Inl e \<Rightarrow> Inl e | Inr t \<Rightarrow> Inr (v @ t)))"

section \<open>The environment of one submission\<close>

text \<open>
  Everything outside the program is an input: the preference field of the page, the
  image-hosting upload, the search relay (by request URL), and the model backend
  (by model name and prompt text). An outcome \<open>Throws\<close> of a backend call stands for
  a rejected request as well as for a response text that \<^verbatim>\<open>JSON.parse\<close> rejects.
\<close>

record env =
  base64Image :: string
  prefer_value :: string
  SERP_AI :: string
  imgbb :: "jsval ext"
  relay :: "string \<Rightarrow> jsval ext"
  generateContent :: "string \<Rightarrow> string \<Rightarrow> jsval ext"

datatype call =
    CallImgbb
  | CallRelay string
  | CallModel string string
  | CallLocal

section \<open>The hint adapter: \<^verbatim>\<open>Vision\<close> (src/index.js)\<close>

text \<open>\<^verbatim>\<open>arr.map(item => item.k)\<close>: the first element that is null or undefined raises.\<close>

fun pluck :: "string \<Rightarrow> jsval list \<Rightarrow> error + jsval list" where
  "pluck k [] = Inr []"
| "pluck k (v # vs) =
     (case get_prop v k of
        Inl e \<Rightarrow> Inl e
      | Inr x \<Rightarrow> (case pluck k vs of Inl e \<Rightarrow> Inl e | Inr xs \<Rightarrow> Inr (x # xs)))"

text \<open>\<^verbatim>\<open>v.map(item => item.k).join(", ")\<close>: \<^verbatim>\<open>v\<close> must be an array.\<close>

fun map_join :: "host \<Rightarrow> string \<Rightarrow> jsval \<Rightarrow> error + string" where
  "map_join h k (JArr vs) =
     (case pluck k vs of Inl e \<Rightarrow> Inl e | Inr xs \<Rightarrow> Inr (js_join (num_str h) '', '' xs))"
| "map_join h k v = Inl TypeError"

text \<open>\<^verbatim>\<open>Response.ai_overview?.references\<close>\<close>

definition overview_references :: "jsval \<Rightarrow> error + jsval" where
  "overview_references response =
     (case get_prop response ''ai_overview'' of
        Inl e \<Rightarrow> Inl e
      | Inr ao \<Rightarrow> if ao = JUndef \<or> ao = JNull then Inr JUndef else get_prop ao ''references'')"

definition search_url :: "host \<Rightarrow> env \<Rightarrow> jsval \<Rightarrow> string" where
  "search_url h e imageUrl =
     ''/search.json?engine=google_lens&url='' @ to_string (num_str h) imageUrl
       @ ''&api_key='' @ SERP_AI e @ ''&preference='' @ prefer_value e"

definition summarise :: "host \<Rightarrow> jsval \<Rightarrow> error + string" where
  "summarise h response =
     (case overview_references response of
        Inl e \<Rightarrow> Inl e
      | Inr refs \<Rightarrow>
          if \<not> truthy refs then
            (case get_prop response ''visual_matches'' of
               Inl e \<Rightarrow> Inl e
             | Inr vm \<Rightarrow> map_join h ''title'' vm)
          else map_join h ''snippet'' refs)"

definition Vision :: "host \<Rightarrow> env \<Rightarrow> (error + string) \<times> call list" where
  "Vision h e =
     (case imgbb e of
        Throws \<Rightarrow> (Inl ExternalError, [CallImgbb])
      | Gives imgbbResponse \<Rightarrow>
          (case get_prop imgbbResponse ''data'' of
             Inl er \<Rightarrow> (Inl er, [CallImgbb])
           | Inr d \<Rightarrow>
               (case get_prop d ''url'' of
                  Inl er \<Rightarrow> (Inl er, [CallImgbb])
                | Inr imageUrl \<Rightarrow>
                    (let u = search_url h e imageUrl in
                     case relay e u of
                       Throws \<Rightarrow> (Inl ExternalError, [CallImgbb, CallRelay u])
                     | Gives response \<Rightarrow> (summarise h response, [CallImgbb, CallRelay u])))))"

section \<open>The orchestrator: \<^verbatim>\<open>identifyLocation\<close>\<close>

text \<open>
  What a try block does once the response is parsed:
  \<^verbatim>\<open>if (parsed.lat && parsed.lng) return { ...parsed, source }\<close>.
  Reading \<^verbatim>\<open>parsed.lat\<close> raises when \<^verbatim>\<open>parsed\<close> is null; only an object can hold
  a truthy \<^verbatim>\<open>lat\<close>.
\<close>

datatype attempt = Returned obj | FellThrough | Caught

definition stamp :: "obj \<Rightarrow> string \<Rightarrow> obj" where
  "stamp parsed src = AList.update ''source'' (JStr src) parsed"

fun check_parsed :: "string \<Rightarrow> jsval \<Rightarrow> attempt" where
  "check_parsed src JUndef = Caught"
| "check_parsed src JNull = Caught"
| "check_parsed src (JObj kv) =
     (if truthy (field kv ''lat'') \<and> truthy (field kv ''lng'')
      then Returned (stamp kv src) else FellThrough)"
| "check_parsed src v = FellThrough"

subsection \<open>src/index.js\<close>

definition nl :: string where
  "nl = CHR 0x0A # replicate 10 (CHR '' '')"

definition prompt_parts :: "part list" where
  "prompt_parts =
     [Lit ''Locate this image. Be precise. prefer '', Ref ''preference'',
      Lit '',search on web and Return a JSON object with lat, lng, city, country, confidence, and reasoning.'',
      Lit nl,
      Lit ''make sure if the image dosent have unique visuals,to the point names which defines the place. it looks like multiple places then give your response with the confidence in the range of 0.4 to 0.6'',
      Lit nl,
      Lit ''the hints image got from the google lens='', Ref ''serpResponse'']"

text \<open>
  The first try block declares \<^verbatim>\<open>serpResponse\<close> and \<^verbatim>\<open>preference\<close>; the second
  declares its own \<^verbatim>\<open>preference\<close> only. Both see the parameter \<^verbatim>\<open>base64Image\<close>.
\<close>

definition scope_first :: "env \<Rightarrow> string \<Rightarrow> scope" where
  "scope_first e serpResponse =
     [(''serpResponse'', serpResponse), (''preference'', prefer_value e),
      (''base64Image'', base64Image e)]"

definition scope_second :: "env \<Rightarrow> scope" where
  "scope_second e = [(''preference'', prefer_value e), (''base64Image'', base64Image e)]"

definition first_attempt :: "host \<Rightarrow> env \<Rightarrow> attempt \<times> call list" where
  "first_attempt h e =
     (case Vision h e of
        (Inl er, cs) \<Rightarrow> (Caught, cs)
      | (Inr serpResponse, cs) \<Rightarrow>
          (case eval_template (scope_first e serpResponse) prompt_parts of
             Inl er \<Rightarrow> (Caught, cs)
           | Inr text \<Rightarrow>
               (case generateContent e ''gemini-3-flash-preview'' text of
                  Throws \<Rightarrow> (Caught, cs @ [CallModel ''gemini-3-flash-preview'' text])
                | Gives parsed \<Rightarrow>
                    (check_parsed ''Gemini 3 Flash'' parsed,
                     cs @ [CallModel ''gemini-3-flash-preview'' text]))))"

definition second_attempt :: "env \<Rightarrow> attempt \<times> call list" where
  "second_attempt e =
     (case eval_template (scope_second e) prompt_parts of
        Inl er \<Rightarrow> (Caught, [])
      | Inr text \<Rightarrow>
          (case generateContent e ''gemini-2.5-flash-lite'' text of
             Throws \<Rightarrow> (Caught, [CallModel ''gemini-2.5-flash-lite'' text])
           | Gives parsed \<Rightarrow>
               (check_parsed ''Gemini 2.5 Flash'' parsed,
                [CallModel ''gemini-2.5-flash-lite'' text])))"

text \<open>
  The third stage of \<^verbatim>\<open>src/index.js\<close> (lines 186 to 201) is inside a block comment:
  after the second try block the function ends and returns \<^verbatim>\<open>undefined\<close>, here
  \<open>None\<close>.
\<close>

definition identifyLocation :: "host \<Rightarrow> env \<Rightarrow> obj option \<times> call list" where
  "identifyLocation h e =
     (case first_attempt h e of
        (Returned r, cs) \<Rightarrow> (Some r, cs)
      | (_, cs) \<Rightarrow>
          (case second_attempt e of
             (Returned r, cs2) \<Rightarrow> (Some r, cs @ cs2)
           | (_, cs2) \<Rightarrow> (None, cs @ cs2)))"


section \<open>The page\<close>

text \<open>
  The part of the DOM and of the map that the pipeline writes: the status line, the
  result panel, and the layers kept in \<^verbatim>\<open>state.markers\<close>.
\<close>

datatype layer = Marker jsnum jsnum | Circle jsnum jsnum nat

record ui =
  emptyHidden :: bool
  resultViewHidden :: bool
  blurred :: bool
  resultsHidden :: bool
  statusHidden :: bool
  statusText :: string
  statusColor :: string
  engineBadge :: string
  inferenceText :: string
  locCity :: jsval
  locCountry :: jsval
  locConfidence :: string
  locCoords :: string
  locReasoning :: jsval
  markers :: "layer list"
  flownTo :: "(jsnum \<times> jsnum) option"

section \<open>The local engine: \<^verbatim>\<open>runLocalObjectAnalysis\<close>\<close>

text \<open>\<^verbatim>\<open>[...new Set(xs)]\<close>: the first occurrence of every element, in order.\<close>

fun uniq_from :: "'a list \<Rightarrow> 'a list \<Rightarrow> 'a list" where
  "uniq_from seen [] = []"
| "uniq_from seen (x # xs) =
     (if x \<in> set seen then uniq_from seen xs else x # uniq_from (x # seen) xs)"

definition uniq :: "'a list \<Rightarrow> 'a list" where
  "uniq xs = uniq_from [] xs"

text \<open>The outcome of \<^verbatim>\<open>fetch('./dataset.json')\<close>: the flag \<^verbatim>\<open>ok\<close> and the parsed body.\<close>

datatype fetched = FetchFails | Status bool "jsval ext"

text \<open>A property of a truthy value: \<^verbatim>\<open>match.lat\<close>.\<close>

fun member_of :: "jsval \<Rightarrow> string \<Rightarrow> jsval" where
  "member_of (JObj kv) k = field kv k"
| "member_of v k = JUndef"

subsection \<open>src/index.js: the classifier and the text recogniser\<close>

record pred =
  className :: "string option"
  pclass :: "string option"

record local_env =
  recognised :: "(pred list \<times> string) ext"
  dataset_json :: fetched

definition lower_char :: "char \<Rightarrow> char" where
  "lower_char c =
     (let n = (of_char c :: nat) in if 65 \<le> n \<and> n \<le> 90 then char_of (n + 32) else c)"

definition toLowerCase :: "string \<Rightarrow> string" where
  "toLowerCase s = map lower_char s"

text \<open>\<^verbatim>\<open>(p.className || p.class).toLowerCase()\<close>\<close>

definition label :: "pred \<Rightarrow> error + string" where
  "label p =
     (case (if className p = None \<or> className p = Some [] then pclass p else className p) of
        None \<Rightarrow> Inl TypeError
      | Some s \<Rightarrow> Inr (toLowerCase s))"

fun labels :: "pred list \<Rightarrow> error + string list" where
  "labels [] = Inr []"
| "labels (p # ps) =
     (case label p of
        Inl e \<Rightarrow> Inl e
      | Inr l \<Rightarrow> (case labels ps of Inl e \<Rightarrow> Inl e | Inr ls \<Rightarrow> Inr (l # ls)))"

text \<open>
  \<^verbatim>\<open>s.split(/[\s,\.]+/)\<close>: the pieces between maximal runs of separators, with an
  empty first or last piece when the text starts or ends with a separator.
\<close>

definition is_sep :: "char \<Rightarrow> bool" where
  "is_sep c = (c \<in> set [CHR '' '', CHR 0x09, CHR 0x0A, CHR 0x0B, CHR 0x0C, CHR 0x0D,
                          CHR '','', CHR ''.''])"

fun split_from :: "bool \<Rightarrow> string \<Rightarrow> string \<Rightarrow> string list" where
  "split_from insep cur [] = [rev cur]"
| "split_from insep cur (c # cs) =
     (if is_sep c then
        (if insep then split_from True cur cs else rev cur # split_from True [] cs)
      else split_from False (c # cur) cs)"

definition split_seps :: "string \<Rightarrow> string list" where
  "split_seps s = split_from False [] s"

text \<open>\<^verbatim>\<open>/^[a-z]+$/.test(w)\<close>\<close>

definition is_az :: "char \<Rightarrow> bool" where
  "is_az c = (let n = (of_char c :: nat) in 97 \<le> n \<and> n \<le> 122)"

definition alphabetic :: "string \<Rightarrow> bool" where
  "alphabetic w = (w \<noteq> [] \<and> list_all is_az w)"

definition ocr_words :: "string \<Rightarrow> string list" where
  "ocr_words ocrText =
     filter (\<lambda>w. length w > 3 \<and> alphabetic w) (split_seps (toLowerCase ocrText))"

definition unique_terms :: "string list \<Rightarrow> string list \<Rightarrow> string list" where
  "unique_terms objects ocrWords = uniq (objects @ ocrWords)"

definition default_result :: "string list \<Rightarrow> string \<Rightarrow> obj" where
  "default_result objects ocrText =
     [(''source'', JStr ''Fallback: Local MobileNet + OCR''),
      (''lat'', JNum (Fin (488566 / 10000))),
      (''lng'', JNum (Fin (23522 / 10000))),
      (''city'', JStr ''Error Location''),
      (''country'', JStr ''Unknown''),
      (''confidence'', JNum (Fin (2 / 10))),
      (''reasoning'', JStr ''Local analysis could not match features to the database.''),
      (''visualAnalysisSummary'',
         JStr (''Detected Objects: '' @ join_with '', '' objects @ ''. OCR Text: '' @ [CHR 0x22]
               @ take 60 (map (\<lambda>c. if c = CHR 0x0A then CHR '' '' else c) ocrText)
               @ ''...'' @ [CHR 0x22]))]"

definition apply_match :: "host \<Rightarrow> string \<Rightarrow> jsval \<Rightarrow> bool \<Rightarrow> obj \<Rightarrow> obj" where
  "apply_match h matchedKey m isOcrMatch result =
     AList.update ''reasoning''
       (JStr (''Local AI identified '' @ [CHR 0x27] @ matchedKey @ [CHR 0x27] @ '' via ''
              @ (if isOcrMatch then ''Text Analysis'' else ''Visual Recognition'') @ ''. ''
              @ to_string (num_str h) (member_of m ''reasoning'')))
    (AList.update ''confidence'' (JNum (Fin (if isOcrMatch then 7 / 10 else 4 / 10)))
    (AList.update ''country'' (member_of m ''country'')
    (AList.update ''city'' (member_of m ''city'')
    (AList.update ''lng'' (member_of m ''lng'')
    (AList.update ''lat'' (member_of m ''lat'') result)))))"

text \<open>
  \<^verbatim>\<open>uniqueTerms.find(term => dataset[term])\<close>, and the body of the inner try
  block. A failed fetch, a status that is not OK, a body that does not parse, and
  \<^verbatim>\<open>null\<close> as the dataset (reading \<^verbatim>\<open>dataset[term]\<close> raises) all leave
  \<^verbatim>\<open>result\<close> as it was. A term such as \<^verbatim>\<open>constructor\<close> is found in every
  dataset object, since \<^verbatim>\<open>dataset[term]\<close> reads inherited properties too.
\<close>

fun find_key :: "host \<Rightarrow> jsval \<Rightarrow> string list \<Rightarrow> error + string option" where
  "find_key h dataset [] = Inr None"
| "find_key h dataset (t # ts) =
     (case index_key h dataset t of
        Inl e \<Rightarrow> Inl e
      | Inr v \<Rightarrow> if truthy v then Inr (Some t) else find_key h dataset ts)"

definition match_dataset ::
  "host \<Rightarrow> fetched \<Rightarrow> string list \<Rightarrow> string list \<Rightarrow> obj \<Rightarrow> obj" where
  "match_dataset h f uniqueTerms ocrWords result =
     (case f of
        FetchFails \<Rightarrow> result
      | Status ok body \<Rightarrow>
          if \<not> ok then result
          else (case body of
                  Throws \<Rightarrow> result
                | Gives dataset \<Rightarrow>
                    (case find_key h dataset uniqueTerms of
                       Inl e \<Rightarrow> result
                     | Inr None \<Rightarrow> result
                     | Inr (Some matchedKey) \<Rightarrow>
                         if matchedKey = [] then result
                         else (case index_key h dataset matchedKey of
                                 Inl e \<Rightarrow> result
                               | Inr m \<Rightarrow>
                                   if truthy m
                                   then apply_match h matchedKey m
                                          (matchedKey \<in> set ocrWords) result
                                   else result))))"

definition runLocalObjectAnalysis :: "host \<Rightarrow> local_env \<Rightarrow> ui \<Rightarrow> (error + obj) \<times> ui" where
  "runLocalObjectAnalysis h le u =
     (let u1 = u\<lparr>statusText := ''Running Local Vision & OCR Analysis...''\<rparr> in
      case recognised le of
        Throws \<Rightarrow> (Inl ExternalError, u1)
      | Gives (predictions, ocrText) \<Rightarrow>
          (case labels predictions of
             Inl er \<Rightarrow> (Inl er, u1)
           | Inr objects \<Rightarrow>
               (Inr (match_dataset h (dataset_json le)
                       (unique_terms objects (ocr_words ocrText)) (ocr_words ocrText)
                       (default_result objects ocrText)), u1)))"


subsection \<open>src/unnamed/part_000: the object detector\<close>

record local_env_p0 =
  load_ok :: bool
  detected :: "string list ext"
  dataset_p0 :: fetched

text \<open>The local variables \<^verbatim>\<open>lat, lng, city, country, reasoning\<close>.\<close>

record guess_vars =
  g_lat :: jsval
  g_lng :: jsval
  g_city :: jsval
  g_country :: jsval
  g_reasoning :: string

definition initial_vars :: "string list \<Rightarrow> guess_vars" where
  "initial_vars uniqueObjects =
     \<lparr>g_lat = JNum (Fin (488566 / 10000)), g_lng = JNum (Fin (23522 / 10000)),
      g_city = JStr ''Populated Area'', g_country = JStr ''Inferred from Objects'',
      g_reasoning = ''Local AI detected: '' @ join_with '', '' uniqueObjects
        @ ''. Scene contains common objects indicating human presence.''\<rparr>"

definition assign_match :: "host \<Rightarrow> string \<Rightarrow> jsval \<Rightarrow> guess_vars" where
  "assign_match h shown m =
     \<lparr>g_lat = member_of m ''lat'', g_lng = member_of m ''lng'',
      g_city = member_of m ''city'', g_country = member_of m ''country'',
      g_reasoning = ''Local AI detected '' @ [CHR 0x27] @ shown @ [CHR 0x27] @ ''. ''
        @ to_string (num_str h) (member_of m ''reasoning'')\<rparr>"

text \<open>
  The inner try block. With no matching key the entry \<^verbatim>\<open>dataset["auto_rickshaw"]\<close>
  is used; when it is absent, reading \<^verbatim>\<open>match.lat\<close> raises and the variables keep
  their initial values.
\<close>

definition match_dataset_p0 :: "host \<Rightarrow> fetched \<Rightarrow> string list \<Rightarrow> guess_vars \<Rightarrow> guess_vars" where
  "match_dataset_p0 h f uniqueObjects vars =
     (case f of
        FetchFails \<Rightarrow> vars
      | Status ok body \<Rightarrow>
          if \<not> ok then vars
          else (case body of
                  Throws \<Rightarrow> vars
                | Gives dataset \<Rightarrow>
                    (case find_key h dataset uniqueObjects of
                       Inl e \<Rightarrow> vars
                     | Inr (Some (c # cs)) \<Rightarrow>
                         (case index_key h dataset (c # cs) of
                            Inl e \<Rightarrow> vars
                          | Inr m \<Rightarrow> assign_match h (c # cs) m)
                     | Inr other \<Rightarrow>
                         (case get_prop dataset ''auto_rickshaw'' of
                            Inl e \<Rightarrow> vars
                          | Inr m \<Rightarrow>
                              if m = JUndef \<or> m = JNull then vars
                              else assign_match h
                                     (case other of None \<Rightarrow> ''undefined'' | Some k \<Rightarrow> k) m))))"

definition runLocalObjectAnalysis_p0 ::
  "host \<Rightarrow> local_env_p0 \<Rightarrow> ui \<Rightarrow> (error + obj) \<times> ui" where
  "runLocalObjectAnalysis_p0 h le u =
     (if \<not> load_ok le then (Inl ExternalError, u)
      else
        (let u1 = u\<lparr>statusText := ''Running Local Test''\<rparr> in
         case detected le of
           Throws \<Rightarrow> (Inl ExternalError, u1)
         | Gives [] \<Rightarrow> (Inl NoObjectsDetected, u1)
         | Gives objects \<Rightarrow>
             (let uniqueObjects = uniq objects;
                  v = match_dataset_p0 h (dataset_p0 le) uniqueObjects (initial_vars uniqueObjects)
              in (Inr [(''source'', JStr ''Fallback: Local TensorFlow.js''),
                       (''lat'', g_lat v), (''lng'', g_lng v),
                       (''city'', g_city v), (''country'', g_country v),
                       (''confidence'', JNum (Fin (4 / 10))),
                       (''reasoning'', JStr (g_reasoning v)),
                       (''visualAnalysisSummary'',
                          JStr (''Browser-based Neural Network identified: ''
                                @ join_with '', '' uniqueObjects @ ''.''))], u1))))"

subsection \<open>The orchestrator of src/unnamed/part_000\<close>

text \<open>
  Here the second model is asked inside the catch block of the first attempt, so only
  when the first attempt raises; the local engine follows in a try block of its own.
\<close>

definition prompt_p0 :: "string \<Rightarrow> string" where
  "prompt_p0 preference =
     ''Locate this image. Be precise. prefer '' @ preference
       @ '', Return a JSON object with lat, lng, city, country, confidence, and reasoning.''"

definition local_stage_p0 ::
  "host \<Rightarrow> local_env_p0 \<Rightarrow> call list \<Rightarrow> ui \<Rightarrow> obj option \<times> call list \<times> ui" where
  "local_stage_p0 h le cs u =
     (case runLocalObjectAnalysis_p0 h le (u\<lparr>statusText := ''local test begins''\<rparr>) of
        (Inl er, u') \<Rightarrow> (None, cs @ [CallLocal], u')
      | (Inr d, u') \<Rightarrow> (Some d, cs @ [CallLocal], u'))"

definition second_stage_p0 ::
  "host \<Rightarrow> env \<Rightarrow> local_env_p0 \<Rightarrow> call list \<Rightarrow> ui \<Rightarrow> obj option \<times> call list \<times> ui" where
  "second_stage_p0 h e le cs u =
     (let text = prompt_p0 (prefer_value e); cs2 = cs @ [CallModel ''gemini-2.5-flash'' text] in
      case generateContent e ''gemini-2.5-flash'' text of
        Throws \<Rightarrow> local_stage_p0 h le cs2 u
      | Gives parsed \<Rightarrow>
          (case check_parsed ''Gemini-2.5-Flash AI'' parsed of
             Returned r \<Rightarrow> (Some r, cs2, u)
           | other \<Rightarrow> local_stage_p0 h le cs2 u))"

definition identifyLocation_p0 ::
  "host \<Rightarrow> env \<Rightarrow> local_env_p0 \<Rightarrow> ui \<Rightarrow> obj option \<times> call list \<times> ui" where
  "identifyLocation_p0 h e le u =
     (let text = prompt_p0 (prefer_value e); cs = [CallModel ''gemini-3-flash-preview'' text] in
      case generateContent e ''gemini-3-flash-preview'' text of
        Throws \<Rightarrow> second_stage_p0 h e le cs u
      | Gives parsed \<Rightarrow>
          (case check_parsed ''Gemini-3-Flash AI'' parsed of
             Returned r \<Rightarrow> (Some r, cs, u)
           | FellThrough \<Rightarrow> local_stage_p0 h le cs u
           | Caught \<Rightarrow> second_stage_p0 h e le cs u))"

section \<open>The renderer: \<^verbatim>\<open>renderResults\<close>\<close>

definition pad4 :: "nat \<Rightarrow> string" where
  "pad4 k = replicate (4 - length (digits k)) (CHR ''0'') @ digits k"

text \<open>
  \<^verbatim>\<open>x.toFixed(4)\<close>, on the exact value of the binary64 number; numbers from
  \<open>10\<^sup>2\<^sup>1\<close> on print as \<^verbatim>\<open>ToString\<close> does.
\<close>

fun toFixed4 :: "host \<Rightarrow> jsnum \<Rightarrow> string" where
  "toFixed4 h NaN = ''NaN''"
| "toFixed4 h PosInf = ''Infinity''"
| "toFixed4 h NegInf = ''-Infinity''"
| "toFixed4 h (Fin q) =
     (case d64 q of
        Fin x \<Rightarrow>
          if \<bar>x\<bar> \<ge> 10 ^ 21 then num_text (num_str h) (Fin x)
          else (let m = nat \<lfloor>\<bar>x\<bar> * 10000 + 1 / 2\<rfloor> in
                (if x < 0 then ''-'' else []) @ digits (m div 10000) @ ''.''
                  @ pad4 (m mod 10000))
      | PosInf \<Rightarrow> ''Infinity''
      | NegInf \<Rightarrow> ''-Infinity''
      | NaN \<Rightarrow> ''NaN'')"

definition certainty :: "host \<Rightarrow> jsval \<Rightarrow> string" where
  "certainty h confidence =
     ''Certainty: ''
       @ num_text (num_str h) (math_round (minus10 (times100 (to_number (str_num h) confidence))))
       @ ''%''"

definition radius :: "string \<Rightarrow> nat" where
  "radius preference = (if preference = [] then 1000 else 500)"

text \<open>
  The two copies differ in the confidence threshold only: \<^verbatim>\<open>data.confidence < 0\<close> in
  \<^verbatim>\<open>src/index.js\<close>, \<^verbatim>\<open>data.confidence < 0.3\<close> in \<^verbatim>\<open>src/unnamed/part_000\<close>.
  The result is the page as written so far and the exception raised, if any:
  \<^verbatim>\<open>data.confidence\<close> raises when \<^verbatim>\<open>data\<close> is undefined, and \<^verbatim>\<open>data.lat.toFixed\<close>
  raises unless \<^verbatim>\<open>data.lat\<close> is a number.
\<close>

definition render_with :: "rat \<Rightarrow> host \<Rightarrow> string \<Rightarrow> obj option \<Rightarrow> ui \<Rightarrow> ui \<times> error option" where
  "render_with threshold h preference data u =
     (case data of
        None \<Rightarrow> (u, Some TypeError)
      | Some d \<Rightarrow>
          if num_lt (to_number (str_num h) (field d ''confidence'')) (Fin threshold) then
            (u\<lparr>statusText := ''Very Low confidence'', statusColor := ''red'',
               blurred := False\<rparr>, None)
          else
            (let u1 = u\<lparr>statusHidden := True, resultsHidden := False, blurred := False,
                        engineBadge := ''Active Engine: '' @ to_string (num_str h) (field d ''source''),
                        inferenceText := [CHR 0x22]
                          @ to_string (num_str h)
                              (if truthy (field d ''visualAnalysisSummary'')
                               then field d ''visualAnalysisSummary'' else field d ''reasoning'')
                          @ [CHR 0x22],
                        locCity := field d ''city'', locCountry := field d ''country'',
                        locConfidence := certainty h (field d ''confidence'')\<rparr>
             in case (field d ''lat'', field d ''lng'') of
                  (JNum la, JNum lo) \<Rightarrow>
                    (let u2 = u1\<lparr>locCoords := toFixed4 h la @ '', '' @ toFixed4 h lo,
                                 locReasoning := field d ''reasoning'', markers := []\<rparr>
                     in if \<not> isNaN la \<and> \<not> isNaN lo
                        then (u2\<lparr>markers := [Marker la lo, Circle la lo (radius preference)],
                                 flownTo := Some (la, lo)\<rparr>, None)
                        else (u2, None))
                | other \<Rightarrow> (u1, Some TypeError)))"

definition renderResults :: "host \<Rightarrow> string \<Rightarrow> obj option \<Rightarrow> ui \<Rightarrow> ui \<times> error option" where
  "renderResults = render_with 0"

definition renderResults_p0 :: "host \<Rightarrow> string \<Rightarrow> obj option \<Rightarrow> ui \<Rightarrow> ui \<times> error option" where
  "renderResults_p0 = render_with (3 / 10)"

section \<open>The caller: the \<^verbatim>\<open>onload\<close> handler of \<^verbatim>\<open>handleFileSelect\<close>\<close>

definition loading :: "ui \<Rightarrow> ui" where
  "loading u = u\<lparr>emptyHidden := True, resultViewHidden := False, blurred := True,
                  resultsHidden := True, statusHidden := False,
                  statusText := ''Analyzing image location...'', statusColor := ''#5f6368''\<rparr>"

definition failed :: "ui \<Rightarrow> ui" where
  "failed u = u\<lparr>statusText := ''All Scans Failed, Location Not Found'',
                 statusColor := ''#d93025''\<rparr>"

definition handleFileSelect :: "host \<Rightarrow> env \<Rightarrow> ui \<Rightarrow> ui" where
  "handleFileSelect h e u =
     (case renderResults h (prefer_value e) (fst (identifyLocation h e)) (loading u) of
        (u', None) \<Rightarrow> u'
      | (u', Some er) \<Rightarrow> failed u')"

definition handleFileSelect_p0 :: "host \<Rightarrow> env \<Rightarrow> local_env_p0 \<Rightarrow> ui \<Rightarrow> ui" where
  "handleFileSelect_p0 h e le u =
     (case identifyLocation_p0 h e le (loading u) of
        (result, cs, u1) \<Rightarrow>
          (case renderResults_p0 h (prefer_value e) result u1 of
             (u', None) \<Rightarrow> u'
           | (u', Some er) \<Rightarrow> failed u'))"


section \<open>Observing a run\<close>

text \<open>The models asked during a run, in order, read off the list of external calls.\<close>

fun models_called :: "call list \<Rightarrow> string list" where
  "models_called [] = []"
| "models_called (CallModel m t # cs) = m # models_called cs"
| "models_called (c # cs) = models_called cs"

section \<open>Structural validity, in the words of the specification\<close>

text \<open>
  Latitude and longitude are present, finite and within \<open>[-90, 90]\<close> and
  \<open>[-180, 180]\<close>, and a confidence is present. The program has no such function;
  this predicate is only used to state what the orchestrator does and does not check.
\<close>

definition spec_structurally_valid :: "obj \<Rightarrow> bool" where
  "spec_structurally_valid g =
     (case (field g ''lat'', field g ''lng'', field g ''confidence'') of
        (JNum (Fin la), JNum (Fin lo), JNum c) \<Rightarrow>
          - 90 \<le> la \<and> la \<le> 90 \<and> - 180 \<le> lo \<and> lo \<le> 180
      | other \<Rightarrow> False)"

section \<open>Example inputs\<close>

definition host0 :: host where
  "host0 = \<lparr>str_num = (\<lambda>v. NaN), num_str = (\<lambda>q. []),
             library_prop = (\<lambda>v k. JUndef), prototype_text = (\<lambda>k. [])\<rparr>"

definition page0 :: ui where
  "page0 = \<lparr>emptyHidden = False, resultViewHidden = True, blurred = False,
             resultsHidden = True, statusHidden = True, statusText = [], statusColor = [],
             engineBadge = [], inferenceText = [], locCity = JStr [], locCountry = JStr [],
             locConfidence = [], locCoords = [], locReasoning = JStr [],
             markers = [], flownTo = None\<rparr>"

definition guess_at :: "rat \<Rightarrow> rat \<Rightarrow> rat \<Rightarrow> obj" where
  "guess_at la lo c =
     [(''lat'', JNum (Fin la)), (''lng'', JNum (Fin lo)), (''city'', JStr ''Paris''),
      (''country'', JStr ''France''), (''confidence'', JNum (Fin c)),
      (''reasoning'', JStr ''Iron lattice tower''),
      (''visualAnalysisSummary'', JStr ''A tower by a river'')]"



text \<open>
  An environment in which the upload and the relay succeed and every model call has
  the outcome \<open>r\<close>.
\<close>

definition env_answer :: "string \<Rightarrow> jsval ext \<Rightarrow> env" where
  "env_answer preference r =
     \<lparr>base64Image = ''data:image/jpeg;base64,AAAA'', prefer_value = preference,
      SERP_AI = ''k'',
      imgbb = Gives (JObj [(''data'', JObj [(''url'', JStr ''u'')])]),
      relay = (\<lambda>u. Gives (JObj [(''visual_matches'',
                 JArr [JObj [(''title'', JStr ''Eiffel Tower'')],
                       JObj [(''title'', JStr ''Paris'')]])])),
      generateContent = (\<lambda>m t. r)\<rparr>"

definition env_upload_fails :: env where
  "env_upload_fails = (env_answer [] (Gives (JObj (guess_at 48 2 (9 / 10)))))\<lparr>imgbb := Throws\<rparr>"

definition env_relay_fails :: env where
  "env_relay_fails =
     (env_answer [] (Gives (JObj (guess_at 48 2 (9 / 10)))))\<lparr>relay := (\<lambda>u. Throws)\<rparr>"

definition env_relay_empty :: env where
  "env_relay_empty =
     (env_answer [] (Gives (JObj (guess_at 48 2 (9 / 10)))))
       \<lparr>relay := (\<lambda>u. Gives (JObj [(''ai_overview'', JObj [])]))\<rparr>"


text \<open>Local inputs: one label, one recognised word, and a dataset holding both.\<close>

definition place :: "rat \<Rightarrow> rat \<Rightarrow> string \<Rightarrow> jsval" where
  "place la lo c =
     JObj [(''lat'', JNum (Fin la)), (''lng'', JNum (Fin lo)), (''city'', JStr c),
           (''country'', JStr ''Vietnam''), (''reasoning'', JStr ''Known landmark.'')]"

definition two_places :: jsval where
  "two_places = JObj [(''hanoi'', place 21 105 ''Hanoi''), (''temple'', place 16 107 ''Hue'')]"

definition local_temple_hanoi :: local_env where
  "local_temple_hanoi =
     \<lparr>recognised = Gives ([\<lparr>className = Some ''Temple'', pclass = None\<rparr>], ''HANOI''),
      dataset_json = Status True (Gives two_places)\<rparr>"

definition local_404 :: local_env where
  "local_404 =
     \<lparr>recognised = Gives ([\<lparr>className = Some ''Temple'', pclass = None\<rparr>], ''HANOI''),
      dataset_json = Status False Throws\<rparr>"

definition local_p0_404 :: local_env_p0 where
  "local_p0_404 = \<lparr>load_ok = True, detected = Gives [''person''], dataset_p0 = Status False Throws\<rparr>"

definition local_p0_nomatch :: local_env_p0 where
  "local_p0_nomatch =
     \<lparr>load_ok = True, detected = Gives [''person''],
      dataset_p0 = Status True (Gives (JObj [(''auto_rickshaw'', place 28 77 ''Delhi'')]))\<rparr>"

definition local_constructor :: local_env where
  "local_constructor =
     \<lparr>recognised = Gives ([\<lparr>className = Some ''Temple'', pclass = None\<rparr>], ''CONSTRUCTOR''),
      dataset_json = Status True (Gives (JObj []))\<rparr>"

definition local_no_key :: local_env where
  "local_no_key =
     \<lparr>recognised = Gives ([\<lparr>className = Some ''Temple'', pclass = None\<rparr>], ''HANOI''),
      dataset_json = Status True (Gives (JObj [(''paris'', place 48 2 ''Paris'')]))\<rparr>"

definition local_hanoi_only :: local_env where
  "local_hanoi_only =
     \<lparr>recognised = Gives ([\<lparr>className = Some ''Temple'', pclass = None\<rparr>], ''HANOI''),
      dataset_json = Status True (Gives (JObj [(''hanoi'', place 21 105 ''Hanoi'')]))\<rparr>"

section \<open>Auxiliary facts\<close>

lemma field_stamp: "field (stamp kv s) k = (if k = ''source'' then JStr s else field kv k)"
  by (simp add: field_def stamp_def update_conv')

lemma second_template: "eval_template (scope_second e) prompt_parts = Inl ReferenceError"
  by (simp add: scope_second_def prompt_parts_def)

lemma second_attempt_caught: "second_attempt e = (Caught, [])"
  by (simp add: second_attempt_def second_template)

lemma identifyLocation_first:
  "identifyLocation h e =
     (case first_attempt h e of (Returned r, cs) \<Rightarrow> (Some r, cs) | (other, cs) \<Rightarrow> (None, cs))"
  by (simp add: identifyLocation_def second_attempt_caught split: prod.splits attempt.splits)

lemma check_parsed_source:
  "check_parsed src v = Returned r \<Longrightarrow> field r ''source'' = JStr src"
  by (cases v) (auto simp: field_stamp split: if_splits)

lemma Vision_calls: "set (snd (Vision h e)) \<subseteq> insert CallImgbb (range CallRelay)"
  by (auto simp: Vision_def Let_def split: ext.splits sum.splits)

lemma first_attempt_source:
  "first_attempt h e = (Returned r, cs) \<Longrightarrow> field r ''source'' = JStr ''Gemini 3 Flash''"
  by (auto simp: first_attempt_def dest: check_parsed_source split: prod.splits sum.splits ext.splits)

lemma first_attempt_calls:
  "set (snd (first_attempt h e)) \<subseteq>
     insert CallImgbb (range CallRelay \<union> range (CallModel ''gemini-3-flash-preview''))"
  using Vision_calls [of h e]
  by (auto simp: first_attempt_def split: prod.splits sum.splits ext.splits)

lemma guess_fields:
  "field (guess_at la lo c) ''lat'' = JNum (Fin la)"
  "field (guess_at la lo c) ''lng'' = JNum (Fin lo)"
  "field (guess_at la lo c) ''confidence'' = JNum (Fin c)"
  by (simp_all add: guess_at_def field_def)


lemma render_placed:
  assumes "field d ''confidence'' = JNum c" and "\<not> num_lt c (Fin thr)"
    and "field d ''lat'' = JNum la" and "field d ''lng'' = JNum lo"
    and "\<not> isNaN la" and "\<not> isNaN lo"
  shows "markers (fst (render_with thr h p (Some d) u)) = [Marker la lo, Circle la lo (radius p)]"
    and "snd (render_with thr h p (Some d) u) = None"
  using assms by (simp_all add: render_with_def Let_def)

lemma render_certainty:
  assumes "field d ''confidence'' = JNum c" and "\<not> num_lt c (Fin thr)"
  shows "locConfidence (fst (render_with thr h p (Some d) u)) = certainty h (JNum c)"
  using assms by (auto simp: render_with_def Let_def split: jsval.splits)

lemma round_half_even_int: "round_half_even (of_int j) = j"
  by (simp add: round_half_even_def Let_def)

lemma d64_int:
  assumes "\<bar>k\<bar> < 2 ^ 53"
  shows "d64 (of_int k) = Fin (of_int k)"
proof (cases "k = 0")
  case True
  then show ?thesis by (simp add: d64_def)
next
  case False
  define a where "a = \<bar>k\<bar>"
  have a1: "1 \<le> a" using False by (simp add: a_def)
  have abs: "\<bar>rat_of_int k\<bar> = rat_of_int a" by (simp add: a_def)
  have il: "ilog2 (rat_of_int a) = bitlen a - 1" using a1 by (simp add: ilog2_def)
  have bl: "bitlen a \<le> 53" using assms by (simp add: bitlen_le_iff_power a_def)
  define n where "n = nat (- max (bitlen a - 1 - 52) (- 1074))"
  have ex: "max (bitlen a - 1 - 52) (- 1074) = - int n" using bl by (simp add: n_def)
  have p: "pow2 (- int n) = 1 / 2 ^ n" by (simp add: pow2_def)
  have q: "rat_of_int a / pow2 (- int n) = rat_of_int (a * 2 ^ n)" by (simp add: p)
  have v: "rat_of_int (round_half_even (rat_of_int a / pow2 (- int n))) * pow2 (- int n)
             = rat_of_int a"
    unfolding q round_half_even_int by (simp add: p)
  have "rat_of_int a < 2 ^ 53" using assms unfolding a_def
    by (metis of_int_less_numeral_power_cancel_iff)
  also have "\<dots> \<le> 2 ^ 1024" by simp
  finally have small: "\<not> (2 :: rat) ^ 1024 \<le> rat_of_int a" by simp
  have nz: "rat_of_int k \<noteq> 0" using False by simp
  have "d64 (rat_of_int k) = Fin (if rat_of_int k < 0 then - rat_of_int a else rat_of_int a)"
    unfolding d64_def Let_def abs il ex v using nz small by (simp only: if_False)
  also have "(if rat_of_int k < 0 then - rat_of_int a else rat_of_int a) = rat_of_int k"
    by (simp add: a_def)
  finally show ?thesis .
qed

lemma whole_percent:
  assumes "times100 (Fin c) = Fin (of_int n)" and "\<bar>n\<bar> < 2 ^ 52"
  shows "math_round (minus10 (times100 (Fin c))) = Fin (of_int (n - 10))"
proof -
  have "\<bar>n\<bar> < 2 ^ 53" using assms(2) by simp
  then have a: "d64 (of_int n) = Fin (of_int n)" by (rule d64_int)
  have "\<bar>n - 10\<bar> < 2 ^ 53" using assms(2) by simp
  then have b: "d64 (of_int (n - 10)) = Fin (of_int (n - 10))" by (rule d64_int)
  have "minus10 (Fin (of_int n)) = d64 (of_int n - 10)" by (simp add: a)
  also have "\<dots> = Fin (of_int (n - 10))" using b by simp
  finally have m: "minus10 (Fin (of_int n)) = Fin (of_int (n - 10))" .
  have "\<lfloor>rat_of_int (n - 10) + 1 / 2\<rfloor> = n - 10"
    by (rule floor_unique) simp_all
  then have "math_round (Fin (of_int (n - 10))) = Fin (of_int (n - 10))"
    by (simp only: math_round.simps)
  then show ?thesis unfolding assms(1) m .
qed

lemma forty: "num_text (num_str host0) (math_round (minus10 (times100 (Fin (1 / 2))))) = ''40''"
  by code_simp

lemma forty_seven:
  "num_text (num_str host0) (math_round (minus10 (times100 (Fin (575 / 1000))))) = ''47''"
  by code_simp

lemma fifty: "times100 (Fin (1 / 2)) = Fin 50"
  by code_simp

text \<open>
  The product rounds as in the program: at 0.105, written as a decimal or as the
  binary64 number itself, \<^verbatim>\<open>c * 100\<close> is 10.5 and the certainty shown is 1; and
  \<^verbatim>\<open>(2.00005).toFixed(4)\<close> is \<^verbatim>\<open>2.0000\<close>, the binary64 number lying below the
  decimal.
\<close>

lemma one_percent:
  "math_round (minus10 (times100 (Fin (105 / 1000)))) = Fin 1"
  "math_round (minus10 (times100 (Fin (7566047373982433 / 72057594037927936)))) = Fin 1"
  by code_simp+

lemma toFixed4_below: "toFixed4 host0 (Fin (200005 / 100000)) = ''2.0000''"
  by code_simp

lemma models_called_append [simp]: "models_called (xs @ ys) = models_called xs @ models_called ys"
  by (induction xs rule: models_called.induct) auto

lemma Vision_no_models: "models_called (snd (Vision h e)) = []"
  by (auto simp: Vision_def Let_def split: ext.splits sum.splits)

lemma Vision_no_local: "CallLocal \<notin> set (snd (Vision h e))"
  by (auto simp: Vision_def Let_def split: ext.splits sum.splits)

lemma first_template:
  "\<exists>t. eval_template (scope_first e s) prompt_parts = Inr t"
  by (simp add: scope_first_def prompt_parts_def)

lemma first_attempt_hint_failed:
  "fst (Vision h e) = Inl er \<Longrightarrow> first_attempt h e = (Caught, snd (Vision h e))"
  by (auto simp: first_attempt_def split: prod.splits sum.splits)

lemma Vision_upload_fails: "imgbb e = Throws \<Longrightarrow> Vision h e = (Inl ExternalError, [CallImgbb])"
  by (simp add: Vision_def)

lemma Vision_relay_fails: "\<forall>u. relay e u = Throws \<Longrightarrow> \<exists>er. fst (Vision h e) = Inl er"
  by (auto simp: Vision_def Let_def split: ext.splits sum.splits)

lemma overview_references_obj:
  "overview_references (JObj r) = Inr (member_of (field r ''ai_overview'') ''references'')"
  by (cases "field r ''ai_overview''") (simp_all add: overview_references_def)

lemma summarise_missing:
  "\<not> truthy (member_of (field r ''ai_overview'') ''references'') \<Longrightarrow>
   field r ''visual_matches'' = JUndef \<Longrightarrow> summarise h (JObj r) = Inl TypeError"
  by (simp add: summarise_def overview_references_obj)

lemma Vision_missing_fields:
  assumes "\<forall>u. relay e u = Gives (JObj r)"
    and "\<not> truthy (member_of (field r ''ai_overview'') ''references'')"
    and "field r ''visual_matches'' = JUndef"
  shows "\<exists>er. fst (Vision h e) = Inl er"
  using assms by (auto simp: Vision_def Let_def summarise_missing split: ext.splits sum.splits)

lemma first_attempt_answer:
  assumes "fst (Vision h e) = Inr s"
    and "\<forall>t. generateContent e ''gemini-3-flash-preview'' t = r"
  shows "fst (first_attempt h e) = (case r of Throws \<Rightarrow> Caught | Gives v \<Rightarrow> check_parsed ''Gemini 3 Flash'' v)"
    and "models_called (snd (first_attempt h e)) = [''gemini-3-flash-preview'']"
  using assms first_template [of e s] Vision_no_models [of h e]
  by (auto simp: first_attempt_def split: prod.splits sum.splits ext.splits)





lemma local_stage_calls: "fst (snd (local_stage_p0 h le cs u)) = cs @ [CallLocal]"
  by (simp add: local_stage_p0_def split: prod.splits sum.splits)



lemma Vision_env_answer: "fst (Vision host0 (env_answer p r)) = Inr ''Eiffel Tower, Paris''"
  by (simp add: Vision_def env_answer_def summarise_def overview_references_def field_def
        js_join_def Let_def)

lemma env_answer_model: "\<forall>t. generateContent (env_answer p r) m t = r"
  by (simp add: env_answer_def)

lemma identifyLocation_env_answer:
  "fst (identifyLocation host0 (env_answer p r)) =
     (case r of Throws \<Rightarrow> None
      | Gives v \<Rightarrow> (case check_parsed ''Gemini 3 Flash'' v of Returned g \<Rightarrow> Some g | other \<Rightarrow> None))"
  "models_called (snd (identifyLocation host0 (env_answer p r))) = [''gemini-3-flash-preview'']"
  using first_attempt_answer [OF Vision_env_answer env_answer_model, of p r]
  by (auto simp: identifyLocation_first split: prod.splits attempt.splits ext.splits)

lemma identifyLocation_fst:
  "fst (identifyLocation h e) =
     (case fst (first_attempt h e) of Returned r \<Rightarrow> Some r | other \<Rightarrow> None)"
  by (cases "first_attempt h e") (auto simp: identifyLocation_first split: attempt.splits)


lemma local_p0_404_result:
  "fst (runLocalObjectAnalysis_p0 host0 local_p0_404 u) =
     Inr [(''source'', JStr ''Fallback: Local TensorFlow.js''),
          (''lat'', JNum (Fin (488566 / 10000))), (''lng'', JNum (Fin (23522 / 10000))),
          (''city'', JStr ''Populated Area''), (''country'', JStr ''Inferred from Objects''),
          (''confidence'', JNum (Fin (4 / 10))),
          (''reasoning'', JStr ''Local AI detected: person. Scene contains common objects indicating human presence.''),
          (''visualAnalysisSummary'', JStr ''Browser-based Neural Network identified: person.'')]"
  by (simp add: runLocalObjectAnalysis_p0_def local_p0_404_def match_dataset_p0_def
        initial_vars_def uniq_def Let_def)

lemma local_p0_nomatch_result:
  "fst (runLocalObjectAnalysis_p0 host0 local_p0_nomatch u) =
     Inr [(''source'', JStr ''Fallback: Local TensorFlow.js''),
          (''lat'', JNum (Fin 28)), (''lng'', JNum (Fin 77)),
          (''city'', JStr ''Delhi''), (''country'', JStr ''Vietnam''),
          (''confidence'', JNum (Fin (4 / 10))),
          (''reasoning'', JStr (''Local AI detected '' @ [CHR 0x27] @ ''undefined'' @ [CHR 0x27] @ ''. Known landmark.'')),
          (''visualAnalysisSummary'', JStr ''Browser-based Neural Network identified: person.'')]"
  by (simp add: runLocalObjectAnalysis_p0_def local_p0_nomatch_def match_dataset_p0_def
        initial_vars_def assign_match_def place_def field_def uniq_def Let_def
        object_prototype_def)

lemma local_stage_source:
  "fst (runLocalObjectAnalysis_p0 h le (u\<lparr>statusText := ''local test begins''\<rparr>)) = Inr r \<Longrightarrow>
     fst (local_stage_p0 h le cs u) = Some r"
  by (auto simp: local_stage_p0_def split: prod.splits sum.splits)

lemma identifyLocation_no_local: "CallLocal \<notin> set (snd (identifyLocation h e))"
  using first_attempt_calls [of h e]
  by (auto simp: identifyLocation_first split: prod.splits attempt.splits)

lemma render_undefined: "render_with t h p None u = (u, Some TypeError)"
  by (simp add: render_with_def)

lemma first_truthy_wins:
  assumes "truthy (field kv ''lat'')" and "truthy (field kv ''lng'')"
    and "\<forall>t. generateContent e ''gemini-3-flash-preview'' t = Gives (JObj kv)"
  shows "fst (Vision h e) = Inr s \<Longrightarrow>
           fst (identifyLocation h e) = Some (stamp kv ''Gemini 3 Flash'')
           \<and> models_called (snd (identifyLocation h e)) = [''gemini-3-flash-preview'']"
    and "identifyLocation_p0 h e le u =
           (Some (stamp kv ''Gemini-3-Flash AI''),
            [CallModel ''gemini-3-flash-preview'' (prompt_p0 (prefer_value e))], u)"
proof -
  show "identifyLocation_p0 h e le u =
           (Some (stamp kv ''Gemini-3-Flash AI''),
            [CallModel ''gemini-3-flash-preview'' (prompt_p0 (prefer_value e))], u)"
    using assms by (simp add: identifyLocation_p0_def Let_def)
  assume v: "fst (Vision h e) = Inr s"
  from first_attempt_answer [OF v assms(3)] assms(1,2)
  show "fst (identifyLocation h e) = Some (stamp kv ''Gemini 3 Flash'')
           \<and> models_called (snd (identifyLocation h e)) = [''gemini-3-flash-preview'']"
    by (auto simp: identifyLocation_first split: prod.splits attempt.splits)
qed

lemma default_fields:
  "field (default_result objects ocrText) ''confidence'' = JNum (Fin (2 / 10))"
  "field (default_result objects ocrText) ''lat'' = JNum (Fin (488566 / 10000))"
  "field (default_result objects ocrText) ''lng'' = JNum (Fin (23522 / 10000))"
  "field (default_result objects ocrText) ''reasoning''
     = JStr ''Local analysis could not match features to the database.''"
  "field (default_result objects ocrText) ''source'' = JStr ''Fallback: Local MobileNet + OCR''"
  by (simp_all add: default_result_def field_def)

lemma apply_match_confidence:
  "field (apply_match h k m b r) ''confidence'' = JNum (Fin (if b then 7 / 10 else 4 / 10))"
  by (simp add: apply_match_def field_def update_conv')

lemma apply_match_coords:
  "field (apply_match h k m b r) ''lat'' = member_of m ''lat''"
  "field (apply_match h k m b r) ''lng'' = member_of m ''lng''"
  by (simp_all add: apply_match_def field_def update_conv')

lemma find_truthy: "find P xs = Some k \<Longrightarrow> P k"
  by (induction xs) (auto split: if_splits)

lemma match_dataset_failed:
  "match_dataset h FetchFails ts ws r = r"
  "match_dataset h (Status False b) ts ws r = r"
  "match_dataset h (Status ok Throws) ts ws r = r"
  by (simp_all add: match_dataset_def)

lemma find_member: "find P xs = Some k \<Longrightarrow> k \<in> set xs"
  by (induction xs) (auto split: if_splits)

lemma index_key_own:
  "k \<notin> set object_prototype \<Longrightarrow> index_key h (JObj ds) k = Inr (field ds k)"
  by (simp add: field_def split: option.splits)

lemma find_key_own:
  "\<forall>t\<in>set ts. t \<notin> set object_prototype \<Longrightarrow>
     find_key h (JObj ds) ts = Inr (find (\<lambda>t. truthy (field ds t)) ts)"
  by (induction ts) (simp_all add: index_key_own del: index_key.simps)

lemma match_dataset_none:
  "\<forall>t\<in>set ts. t \<notin> set object_prototype \<Longrightarrow>
   find (\<lambda>t. truthy (field ds t)) ts = None \<Longrightarrow>
     match_dataset h (Status True (Gives (JObj ds))) ts ws r = r"
  by (simp add: match_dataset_def find_key_own)

lemma match_dataset_some:
  assumes "\<forall>t\<in>set ts. t \<notin> set object_prototype"
    and "find (\<lambda>t. truthy (field ds t)) ts = Some k" and "k \<noteq> []"
  shows "match_dataset h (Status True (Gives (JObj ds))) ts ws r
           = apply_match h k (field ds k) (k \<in> set ws) r"
proof -
  have "k \<notin> set object_prototype"
    using assms(1) find_member [OF assms(2)] by blast
  then have "index_key h (JObj ds) k = Inr (field ds k)"
    by (rule index_key_own)
  moreover have "truthy (field ds k)"
    using find_truthy [OF assms(2)] .
  ultimately show ?thesis
    using assms by (simp add: match_dataset_def find_key_own)
qed

lemma inherited_term_matches:
  "match_dataset h (Status True (Gives (JObj []))) [''constructor''] [''constructor''] r
     = apply_match h ''constructor'' (JBuiltin (prototype_text h ''constructor'')) True r"
  by (simp add: match_dataset_def object_prototype_def)

lemma run_local_returns:
  assumes "recognised le = Gives (ps, ocrText)" and "labels ps = Inr objects"
  shows "fst (runLocalObjectAnalysis h le u) =
           Inr (match_dataset h (dataset_json le) (unique_terms objects (ocr_words ocrText))
                  (ocr_words ocrText) (default_result objects ocrText))"
  using assms by (simp add: runLocalObjectAnalysis_def Let_def)

lemma run_local_p0_confidence:
  assumes "load_ok le" and "detected le = Gives (ob # obs)"
  shows "\<exists>r. fst (runLocalObjectAnalysis_p0 h le u) = Inr r
             \<and> field r ''confidence'' = JNum (Fin (4 / 10))"
  using assms by (simp add: runLocalObjectAnalysis_p0_def Let_def field_def)

lemma run_local_p0_empty:
  assumes "load_ok le" and "detected le = Gives []"
  shows "fst (runLocalObjectAnalysis_p0 h le u) = Inl NoObjectsDetected"
  using assms by (simp add: runLocalObjectAnalysis_p0_def Let_def)

lemma run_local_p0_rickshaw:
  assumes "load_ok le" and "detected le = Gives (ob # obs)"
    and "dataset_p0 le = Status True (Gives (JObj ds))"
    and "\<forall>t\<in>set (uniq (ob # obs)). t \<notin> set object_prototype"
    and "find (\<lambda>t. truthy (field ds t)) (uniq (ob # obs)) = None"
    and "field ds ''auto_rickshaw'' = JObj m"
  shows "\<exists>r. fst (runLocalObjectAnalysis_p0 h le u) = Inr r
             \<and> field r ''lat'' = field m ''lat'' \<and> field r ''lng'' = field m ''lng''"
proof -
  have k: "find_key h (JObj ds) (uniq (ob # obs)) = Inr None"
    using assms(4,5) by (simp add: find_key_own)
  have v: "match_dataset_p0 h (dataset_p0 le) (uniq (ob # obs)) (initial_vars (uniq (ob # obs)))
             = assign_match h ''undefined'' (JObj m)"
    unfolding match_dataset_p0_def assms(3) using k assms(6) by simp
  show ?thesis
    using assms(1,2)
    by (simp add: runLocalObjectAnalysis_p0_def Let_def v assign_match_def field_def)
qed


lemma temple_labels: "labels [\<lparr>className = Some ''Temple'', pclass = None\<rparr>] = Inr [''temple'']"
  by code_simp

lemma hanoi_words: "ocr_words ''HANOI'' = [''hanoi'']"
  by code_simp

lemma temple_hanoi_terms: "unique_terms [''temple''] [''hanoi''] = [''temple'', ''hanoi'']"
  by (simp add: unique_terms_def uniq_def)

text \<open>
  With an empty dataset and the recognised word \<^verbatim>\<open>constructor\<close>, the read
  \<^verbatim>\<open>dataset[term]\<close> finds the inherited \<^verbatim>\<open>constructor\<close>: the guess has confidence
  0.7 and no coordinates.
\<close>

lemma constructor_words: "ocr_words ''CONSTRUCTOR'' = [''constructor'']"
  by code_simp

lemma inherited_word_example:
  "(case fst (runLocalObjectAnalysis host0 local_constructor page0) of
      Inr r \<Rightarrow> (field r ''confidence'', field r ''lat'', field r ''lng'')
    | Inl e \<Rightarrow> (JUndef, JUndef, JUndef)) = (JNum (Fin (7 / 10)), JUndef, JUndef)"
proof -
  have r: "recognised local_constructor
             = Gives ([\<lparr>className = Some ''Temple'', pclass = None\<rparr>], ''CONSTRUCTOR'')"
    and d: "dataset_json local_constructor = Status True (Gives (JObj []))"
    by (simp_all add: local_constructor_def)
  have t: "unique_terms [''temple''] [''constructor''] = [''temple'', ''constructor'']"
    by (simp add: unique_terms_def uniq_def)
  have m: "match_dataset host0 (Status True (Gives (JObj []))) [''temple'', ''constructor'']
             [''constructor''] (default_result [''temple''] ''CONSTRUCTOR'')
           = apply_match host0 ''constructor'' (JBuiltin (prototype_text host0 ''constructor''))
               True (default_result [''temple''] ''CONSTRUCTOR'')"
    by (simp add: match_dataset_def object_prototype_def)
  show ?thesis
    unfolding run_local_returns [OF r temple_labels] d constructor_words t m
    by (simp add: apply_match_confidence apply_match_coords)
qed

lemma uniq_from_set: "set s1 = set s2 \<Longrightarrow> uniq_from s1 xs = uniq_from s2 xs"
proof (induction xs arbitrary: s1 s2)
  case Nil
  show ?case by simp
next
  case (Cons x xs)
  have m: "(x \<in> set s1) = (x \<in> set s2)"
    using Cons.prems by simp
  have "set (x # s1) = set (x # s2)"
    using Cons.prems by simp
  from Cons.IH [OF this] Cons.IH [OF Cons.prems] m show ?case
    by simp
qed

lemma uniq_from_distinct: "distinct (uniq_from seen xs) \<and> set (uniq_from seen xs) = set xs - set seen"
  by (induction xs arbitrary: seen) auto

lemma ocr_words_shape: "w \<in> set (ocr_words t) \<Longrightarrow> length w > 3 \<and> list_all is_az w"
  by (auto simp: ocr_words_def alphabetic_def)

lemma uniq_from_append:
  "uniq_from seen (xs @ ys) = uniq_from seen xs @ uniq_from (xs @ seen) ys"
proof (induction xs arbitrary: seen)
  case Nil
  then show ?case by simp
next
  case (Cons x xs)
  show ?case
  proof (cases "x \<in> set seen")
    case True
    have "set ((x # xs) @ seen) = set (xs @ seen)"
      using True by auto
    then have "uniq_from ((x # xs) @ seen) ys = uniq_from (xs @ seen) ys"
      by (rule uniq_from_set)
    with True Cons.IH [of seen] show ?thesis by simp
  next
    case False
    have "set ((x # xs) @ seen) = set (xs @ x # seen)"
      by auto
    then have "uniq_from ((x # xs) @ seen) ys = uniq_from (xs @ x # seen) ys"
      by (rule uniq_from_set)
    with False Cons.IH [of "x # seen"] show ?thesis by simp
  qed
qed

lemma unique_terms_labels_first:
  "unique_terms objects ws = uniq objects @ uniq_from objects ws"
  by (simp add: unique_terms_def uniq_def uniq_from_append)

lemma unique_terms_set:
  "distinct (unique_terms objects ws)" "set (unique_terms objects ws) = set objects \<union> set ws"
  using uniq_from_distinct [of "[]" "objects @ ws"] by (simp_all add: unique_terms_def uniq_def)

section \<open>Properties of the pipeline\<close>

text \<open>
  C9. In \<^verbatim>\<open>src/index.js\<close> the prompt of the second attempt interpolates
  \<^verbatim>\<open>serpResponse\<close>, a constant of the first try block that is not in scope in the
  second. Evaluating the prompt raises a ReferenceError, so for every input the request
  to the second model is never issued, and a result, when there is one, carries the
  source \<^verbatim>\<open>Gemini 3 Flash\<close>, never \<^verbatim>\<open>Gemini 2.5 Flash\<close>.
\<close>

theorem secondary_unreachable:
  "eval_template (scope_second e) prompt_parts = Inl ReferenceError
   \<and> CallModel ''gemini-2.5-flash-lite'' text \<notin> set (snd (identifyLocation h e))
   \<and> (case fst (identifyLocation h e) of
         None \<Rightarrow> True
       | Some r \<Rightarrow> field r ''source'' = JStr ''Gemini 3 Flash''
                  \<and> field r ''source'' \<noteq> JStr ''Gemini 2.5 Flash'')"
proof -
  have a: "CallModel ''gemini-2.5-flash-lite'' text \<notin> set (snd (identifyLocation h e))"
    using first_attempt_calls [of h e]
    by (auto simp: identifyLocation_first split: prod.splits attempt.splits)
  have b: "(case fst (identifyLocation h e) of
         None \<Rightarrow> True
       | Some r \<Rightarrow> field r ''source'' = JStr ''Gemini 3 Flash''
                  \<and> field r ''source'' \<noteq> JStr ''Gemini 2.5 Flash'')"
    by (auto simp: identifyLocation_first dest: first_attempt_source
             split: prod.splits attempt.splits)
  from a b second_template show ?thesis by blast
qed


text \<open>
  C10. The certainty shown for a rendered guess with confidence \<open>c\<close> is the text of
  \<^verbatim>\<open>Math.round(c * 100 - 10)\<close>, the product and the difference being computed in
  binary64 as the program computes them: in both copies of the renderer, whenever the
  result panel is shown. Whenever the product \<^verbatim>\<open>c * 100\<close> comes out as a whole
  number \<open>n\<close>, the number shown is \<open>n - 10\<close>, ten percentage points below the
  confidence. A confidence of 0.5 is shown as \<^verbatim>\<open>Certainty: 40%\<close> (the example below).
\<close>

theorem displayed_certainty:
  assumes "field d ''confidence'' = JNum (Fin c)"
  shows "(0 \<le> c \<longrightarrow>
            locConfidence (fst (renderResults h p (Some d) u)) =
              ''Certainty: '' @ num_text (num_str h) (math_round (minus10 (times100 (Fin c)))) @ ''%'')
       \<and> (3 / 10 \<le> c \<longrightarrow>
            locConfidence (fst (renderResults_p0 h p (Some d) u)) =
              ''Certainty: '' @ num_text (num_str h) (math_round (minus10 (times100 (Fin c)))) @ ''%'')
       \<and> (times100 (Fin c) = Fin (of_int n) \<and> \<bar>n\<bar> < 2 ^ 52 \<longrightarrow>
            math_round (minus10 (times100 (Fin c))) = Fin (of_int (n - 10)))"
proof -
  have a: "0 \<le> c \<Longrightarrow> locConfidence (fst (renderResults h p (Some d) u)) = certainty h (JNum (Fin c))"
    unfolding renderResults_def using assms by (intro render_certainty) simp_all
  have b: "3 / 10 \<le> c \<Longrightarrow>
             locConfidence (fst (renderResults_p0 h p (Some d) u)) = certainty h (JNum (Fin c))"
    unfolding renderResults_p0_def using assms by (intro render_certainty) simp_all
  have c: "certainty h (JNum (Fin c)) =
             ''Certainty: '' @ num_text (num_str h) (math_round (minus10 (times100 (Fin c)))) @ ''%''"
    unfolding certainty_def to_number.simps ..
  from a b c whole_percent [of c n] show ?thesis by metis
qed


theorem displayed_certainty_witness:
  "field (guess_at 48 2 (1 / 2)) ''confidence'' = JNum (Fin (1 / 2))
   \<and> (0::rat) \<le> 1 / 2 \<and> (3 / 10 :: rat) \<le> 1 / 2
   \<and> locConfidence (fst (renderResults host0 [] (Some (guess_at 48 2 (1 / 2))) page0))
       = ''Certainty: 40%''
   \<and> locConfidence (fst (renderResults_p0 host0 [] (Some (guess_at 48 2 (1 / 2))) page0))
       = ''Certainty: 40%''
   \<and> times100 (Fin (1 / 2)) = Fin (of_int 50) \<and> \<bar>50 :: int\<bar> < 2 ^ 52
   \<and> math_round (minus10 (times100 (Fin (1 / 2)))) = Fin (of_int (50 - 10))
   \<and> field (guess_at 48 2 (575 / 1000)) ''confidence'' = JNum (Fin (575 / 1000))
   \<and> locConfidence (fst (renderResults host0 [] (Some (guess_at 48 2 (575 / 1000))) page0))
       = ''Certainty: 47%''"
proof -
  have c: "field (guess_at 48 2 (1 / 2)) ''confidence'' = JNum (Fin (1 / 2))"
    by (rule guess_fields(3))
  have c2: "field (guess_at 48 2 (575 / 1000)) ''confidence'' = JNum (Fin (575 / 1000))"
    by (rule guess_fields(3))
  have le: "(0::rat) \<le> 1 / 2" "(3 / 10 :: rat) \<le> 1 / 2" "(0::rat) \<le> 575 / 1000" by simp_all
  have f: "times100 (Fin (1 / 2)) = Fin (of_int 50)" using fifty by simp
  have n: "\<bar>50 :: int\<bar> < 2 ^ 52" by simp
  note th = displayed_certainty [OF c, of host0 "[]" page0 50]
  note th2 = displayed_certainty [OF c2, of host0 "[]" page0 0]
  from th le
  have a: "locConfidence (fst (renderResults host0 [] (Some (guess_at 48 2 (1 / 2))) page0)) =
             ''Certainty: '' @ num_text (num_str host0) (math_round (minus10 (times100 (Fin (1 / 2))))) @ ''%''"
   and b: "locConfidence (fst (renderResults_p0 host0 [] (Some (guess_at 48 2 (1 / 2))) page0)) =
             ''Certainty: '' @ num_text (num_str host0) (math_round (minus10 (times100 (Fin (1 / 2))))) @ ''%''"
    by blast+
  from th f n
  have w: "math_round (minus10 (times100 (Fin (1 / 2)))) = Fin (of_int (50 - 10))"
    by blast
  from th2 le
  have d: "locConfidence (fst (renderResults host0 [] (Some (guess_at 48 2 (575 / 1000))) page0)) =
             ''Certainty: '' @ num_text (num_str host0)
                (math_round (minus10 (times100 (Fin (575 / 1000))))) @ ''%''"
    by blast
  have t: "''Certainty: '' @ ''40'' @ ''%'' = ''Certainty: 40%''"
    "''Certainty: '' @ ''47'' @ ''%'' = ''Certainty: 47%''" by simp_all
  from a [unfolded forty t] b [unfolded forty t] d [unfolded forty_seven t] c c2 le f n w
  show ?thesis by blast
qed




text \<open>
  C8. Whenever the renderer places a marker, the layers it keeps are that marker and
  one circle around the same point, of radius 1000 when the preference field is empty
  and 500 otherwise, whatever the confidence. In both copies of the renderer.
\<close>

theorem preference_radius:
  assumes "field d ''lat'' = JNum la" and "field d ''lng'' = JNum lo"
    and "\<not> isNaN la" and "\<not> isNaN lo"
    and "field d ''confidence'' = JNum c"
  shows "(\<not> num_lt c (Fin 0) \<longrightarrow>
            markers (fst (renderResults h p (Some d) u))
              = [Marker la lo, Circle la lo (if p = [] then 1000 else 500)])
       \<and> (\<not> num_lt c (Fin (3 / 10)) \<longrightarrow>
            markers (fst (renderResults_p0 h p (Some d) u))
              = [Marker la lo, Circle la lo (if p = [] then 1000 else 500)])"
  using assms unfolding renderResults_def renderResults_p0_def
  by (simp add: render_placed(1) radius_def)

theorem preference_radius_witness:
  "markers (fst (renderResults host0 [] (Some (guess_at 48 2 (9 / 10))) page0))
     = [Marker (Fin 48) (Fin 2), Circle (Fin 48) (Fin 2) 1000]
   \<and> markers (fst (renderResults host0 ''coastal'' (Some (guess_at 48 2 (9 / 10))) page0))
     = [Marker (Fin 48) (Fin 2), Circle (Fin 48) (Fin 2) 500]
   \<and> markers (fst (renderResults_p0 host0 [] (Some (guess_at 48 2 (4 / 10))) page0))
     = [Marker (Fin 48) (Fin 2), Circle (Fin 48) (Fin 2) 1000]
   \<and> markers (fst (renderResults_p0 host0 ''coastal'' (Some (guess_at 48 2 (4 / 10))) page0))
     = [Marker (Fin 48) (Fin 2), Circle (Fin 48) (Fin 2) 500]"
proof -
  have n: "\<not> isNaN (Fin 48)" "\<not> isNaN (Fin 2)" by simp_all
  note th = preference_radius [OF guess_fields(1) guess_fields(2) n guess_fields(3),
      of _ host0 _ page0]
  have "\<not> num_lt (Fin (9 / 10)) (Fin 0)" "\<not> num_lt (Fin (4 / 10)) (Fin (3 / 10))" by simp_all
  with th [of "9 / 10" "[]"] th [of "9 / 10" "''coastal''"]
       th [of "4 / 10" "[]"] th [of "4 / 10" "''coastal''"]
  show ?thesis by simp
qed


text \<open>
  C5, as the code has it. \<^verbatim>\<open>Vision\<close> has no error handling: when the upload
  fails, when the relay fails, or when the relay's response has neither
  \<^verbatim>\<open>ai_overview.references\<close> nor \<^verbatim>\<open>visual_matches\<close>, it raises instead of
  returning a string. It is called inside the first try block of
  \<^verbatim>\<open>identifyLocation\<close>, so the exception is caught there and
  \<^verbatim>\<open>identifyLocation\<close> does not raise; but the first model is then not asked.
\<close>

theorem hint_failure_propagates:
  "(imgbb e = Throws \<longrightarrow> fst (Vision h e) = Inl ExternalError)
   \<and> ((\<forall>u. relay e u = Throws) \<longrightarrow> (\<exists>er. fst (Vision h e) = Inl er))
   \<and> ((\<forall>u. relay e u = Gives (JObj r))
        \<and> \<not> truthy (member_of (field r ''ai_overview'') ''references'')
        \<and> field r ''visual_matches'' = JUndef \<longrightarrow> (\<exists>er. fst (Vision h e) = Inl er))
   \<and> ((\<exists>er. fst (Vision h e) = Inl er) \<longrightarrow>
        fst (first_attempt h e) = Caught
        \<and> CallModel ''gemini-3-flash-preview'' t \<notin> set (snd (identifyLocation h e)))"
proof -
  have d: "fst (first_attempt h e) = Caught
           \<and> CallModel ''gemini-3-flash-preview'' t \<notin> set (snd (identifyLocation h e))"
    if "fst (Vision h e) = Inl er" for er
  proof -
    have f: "first_attempt h e = (Caught, snd (Vision h e))"
      using that by (rule first_attempt_hint_failed)
    then have "snd (identifyLocation h e) = snd (Vision h e)"
      by (simp add: identifyLocation_first)
    with Vision_calls [of h e] f show ?thesis by auto
  qed
  from d Vision_upload_fails [of e h] Vision_relay_fails [of e h] Vision_missing_fields [of e r h]
  show ?thesis by auto
qed


theorem hint_failure_propagates_witness:
  "imgbb env_upload_fails = Throws
   \<and> fst (Vision host0 env_upload_fails) = Inl ExternalError
   \<and> fst (first_attempt host0 env_upload_fails) = Caught
   \<and> (\<forall>u. relay env_relay_fails u = Throws)
   \<and> fst (first_attempt host0 env_relay_fails) = Caught
   \<and> (\<forall>u. relay env_relay_empty u = Gives (JObj [(''ai_overview'', JObj [])]))
   \<and> \<not> truthy (member_of (field [(''ai_overview'', JObj [])] ''ai_overview'') ''references'')
   \<and> field [(''ai_overview'', JObj [])] ''visual_matches'' = JUndef
   \<and> fst (first_attempt host0 env_relay_empty) = Caught"
proof -
  have a: "imgbb env_upload_fails = Throws"
    by (simp add: env_upload_fails_def env_answer_def)
  have b: "\<forall>u. relay env_relay_fails u = Throws"
    by (simp add: env_relay_fails_def env_answer_def)
  have c: "\<forall>u. relay env_relay_empty u = Gives (JObj [(''ai_overview'', JObj [])])"
    by (simp add: env_relay_empty_def env_answer_def)
  have f: "\<not> truthy (member_of (field [(''ai_overview'', JObj [])] ''ai_overview'') ''references'')"
    "field [(''ai_overview'', JObj [])] ''visual_matches'' = JUndef"
    by (simp_all add: field_def)
  from hint_failure_propagates [of env_upload_fails host0 "[]"] a
       hint_failure_propagates [of env_relay_fails host0 "[]"] b
       hint_failure_propagates [of env_relay_empty host0 "[(''ai_overview'', JObj [])]"] c f
  show ?thesis by blast
qed

text \<open>
  C5, as stated, fails: with a failing upload \<^verbatim>\<open>Vision\<close> gives no string but
  an error, and the only external call of the whole run is the upload: the first
  model is not asked.
\<close>

theorem hint_failure_counterexample:
  "imgbb env_upload_fails = Throws
   \<and> Vision host0 env_upload_fails = (Inl ExternalError, [CallImgbb])
   \<and> snd (identifyLocation host0 env_upload_fails) = [CallImgbb]"
proof -
  have a: "imgbb env_upload_fails = Throws"
    by (simp add: env_upload_fails_def env_answer_def)
  then have b: "Vision host0 env_upload_fails = (Inl ExternalError, [CallImgbb])"
    by (rule Vision_upload_fails)
  then have "first_attempt host0 env_upload_fails = (Caught, [CallImgbb])"
    by (simp add: first_attempt_def)
  then have "snd (identifyLocation host0 env_upload_fails) = [CallImgbb]"
    by (simp add: identifyLocation_first)
  with a b show ?thesis by simp
qed





text \<open>
  C3 at a structurally valid guess on the equator (latitude 0, longitude -78,
  confidence 0.9) returned by the first model: the test \<^verbatim>\<open>parsed.lat && parsed.lng\<close>
  takes the latitude 0 for a missing one. \<^verbatim>\<open>src/index.js\<close> then ends without a
  result; \<^verbatim>\<open>src/unnamed/part_000\<close> calls the local engine and returns its guess.
\<close>

theorem equator_guess_rejected:
  "spec_structurally_valid (guess_at 0 (- 78) (9 / 10))
   \<and> fst (identifyLocation host0 (env_answer [] (Gives (JObj (guess_at 0 (- 78) (9 / 10)))))) = None
   \<and> models_called (snd (identifyLocation host0 (env_answer [] (Gives (JObj (guess_at 0 (- 78) (9 / 10)))))))
       = [''gemini-3-flash-preview'']
   \<and> CallLocal \<in> set (fst (snd (identifyLocation_p0 host0
         (env_answer [] (Gives (JObj (guess_at 0 (- 78) (9 / 10))))) local_p0_nomatch page0)))
   \<and> map_option (\<lambda>r. field r ''source'') (fst (identifyLocation_p0 host0
         (env_answer [] (Gives (JObj (guess_at 0 (- 78) (9 / 10))))) local_p0_nomatch page0))
       = Some (JStr ''Fallback: Local TensorFlow.js'')"
proof -
  have v: "spec_structurally_valid (guess_at 0 (- 78) (9 / 10))"
    by (simp add: spec_structurally_valid_def guess_fields)
  have a: "fst (identifyLocation host0 (env_answer [] (Gives (JObj (guess_at 0 (- 78) (9 / 10)))))) = None"
    by (simp add: identifyLocation_env_answer guess_fields)
  have p: "identifyLocation_p0 host0 (env_answer [] (Gives (JObj (guess_at 0 (- 78) (9 / 10)))))
             local_p0_nomatch page0
           = local_stage_p0 host0 local_p0_nomatch
               [CallModel ''gemini-3-flash-preview''
                  (prompt_p0 (prefer_value (env_answer [] (Gives (JObj (guess_at 0 (- 78) (9 / 10)))))))]
               page0"
    by (simp add: identifyLocation_p0_def Let_def guess_fields env_answer_model)
  have c: "CallLocal \<in> set (fst (snd (identifyLocation_p0 host0
         (env_answer [] (Gives (JObj (guess_at 0 (- 78) (9 / 10))))) local_p0_nomatch page0)))"
    unfolding p by (simp add: local_stage_calls)
  have d: "map_option (\<lambda>r. field r ''source'') (fst (identifyLocation_p0 host0
         (env_answer [] (Gives (JObj (guess_at 0 (- 78) (9 / 10))))) local_p0_nomatch page0))
       = Some (JStr ''Fallback: Local TensorFlow.js'')"
    unfolding p by (simp add: local_stage_source [OF local_p0_nomatch_result] field_def)
  from v a c d identifyLocation_env_answer(2) show ?thesis by simp
qed

text \<open>
  C2 when every model call fails. \<^verbatim>\<open>src/index.js\<close> never calls the local engine
  (on any input) and ends without a result, which the caller reports as
  \<^verbatim>\<open>All Scans Failed, Location Not Found\<close>; \<^verbatim>\<open>src/unnamed/part_000\<close> on the same
  input asks both models, calls the local engine and returns its guess.
\<close>

theorem remote_failure_no_local:
  "CallLocal \<notin> set (snd (identifyLocation h e))
   \<and> fst (identifyLocation host0 (env_answer [] Throws)) = None
   \<and> statusText (handleFileSelect host0 (env_answer [] Throws) page0)
       = ''All Scans Failed, Location Not Found''
   \<and> models_called (fst (snd (identifyLocation_p0 host0 (env_answer [] Throws) local_p0_nomatch page0)))
       = [''gemini-3-flash-preview'', ''gemini-2.5-flash'']
   \<and> CallLocal \<in> set (fst (snd (identifyLocation_p0 host0 (env_answer [] Throws) local_p0_nomatch page0)))
   \<and> map_option (\<lambda>r. field r ''source'')
        (fst (identifyLocation_p0 host0 (env_answer [] Throws) local_p0_nomatch page0))
       = Some (JStr ''Fallback: Local TensorFlow.js'')"
proof -
  have a: "fst (identifyLocation host0 (env_answer [] Throws)) = None"
    by (simp add: identifyLocation_env_answer)
  have b: "statusText (handleFileSelect host0 (env_answer [] Throws) page0)
       = ''All Scans Failed, Location Not Found''"
    by (simp add: handleFileSelect_def a renderResults_def render_undefined failed_def)
  have p: "identifyLocation_p0 host0 (env_answer [] Throws) local_p0_nomatch page0
           = local_stage_p0 host0 local_p0_nomatch
               [CallModel ''gemini-3-flash-preview'' (prompt_p0 (prefer_value (env_answer [] Throws))),
                CallModel ''gemini-2.5-flash'' (prompt_p0 (prefer_value (env_answer [] Throws)))]
               page0"
    by (simp add: identifyLocation_p0_def second_stage_p0_def Let_def env_answer_model)
  have c: "models_called (fst (snd (identifyLocation_p0 host0 (env_answer [] Throws) local_p0_nomatch page0)))
       = [''gemini-3-flash-preview'', ''gemini-2.5-flash'']"
    "CallLocal \<in> set (fst (snd (identifyLocation_p0 host0 (env_answer [] Throws) local_p0_nomatch page0)))"
    unfolding p by (simp_all add: local_stage_calls)
  have d: "map_option (\<lambda>r. field r ''source'')
        (fst (identifyLocation_p0 host0 (env_answer [] Throws) local_p0_nomatch page0))
       = Some (JStr ''Fallback: Local TensorFlow.js'')"
    unfolding p by (simp add: local_stage_source [OF local_p0_nomatch_result] field_def)
  from identifyLocation_no_local [of h e] a b c d show ?thesis by simp
qed


text \<open>
  C6, as the code has it. The local engine of \<^verbatim>\<open>src/index.js\<close>, once its two
  recognisers have answered, always returns a guess. When no candidate term names a
  member of \<^verbatim>\<open>Object.prototype\<close>: a match on a non-empty term that is among the
  recognised words has confidence 0.7, any other match on a non-empty term 0.4, and
  with no candidate among the dataset's keys the guess is the fixed default
  (confidence 0.2, 48.8566, 2.3522, and the reasoning
  \<^verbatim>\<open>Local analysis could not match features to the database.\<close>). When the dataset
  cannot be fetched, is not OK or does not parse, the guess is that default, whatever
  the candidates. The local engine of \<^verbatim>\<open>src/unnamed/part_000\<close> is different:
  every guess has confidence 0.4, an empty list of detections raises, and with no
  match the dataset entry \<^verbatim>\<open>auto_rickshaw\<close> supplies the coordinates.
\<close>

theorem local_confidence:
  assumes "recognised le = Gives (ps, ocrText)" and "labels ps = Inr objects"
  shows "((\<forall>t\<in>set (unique_terms objects (ocr_words ocrText)). t \<notin> set object_prototype)
          \<and> dataset_json le = Status True (Gives (JObj ds))
          \<and> find (\<lambda>t. truthy (field ds t)) (unique_terms objects (ocr_words ocrText)) = Some k
          \<and> k \<noteq> [] \<longrightarrow>
            (\<exists>r. fst (runLocalObjectAnalysis h le u) = Inr r
                  \<and> field r ''confidence''
                      = JNum (Fin (if k \<in> set (ocr_words ocrText) then 7 / 10 else 4 / 10))))
       \<and> ((\<forall>t\<in>set (unique_terms objects (ocr_words ocrText)). t \<notin> set object_prototype)
          \<and> dataset_json le = Status True (Gives (JObj ds))
          \<and> find (\<lambda>t. truthy (field ds t)) (unique_terms objects (ocr_words ocrText)) = None \<longrightarrow>
            fst (runLocalObjectAnalysis h le u) = Inr (default_result objects ocrText))
       \<and> (dataset_json le = FetchFails \<or> dataset_json le = Status False body
            \<or> dataset_json le = Status True Throws \<longrightarrow>
            fst (runLocalObjectAnalysis h le u) = Inr (default_result objects ocrText))
       \<and> field (default_result objects ocrText) ''confidence'' = JNum (Fin (2 / 10))
       \<and> field (default_result objects ocrText) ''lat'' = JNum (Fin (488566 / 10000))
       \<and> field (default_result objects ocrText) ''lng'' = JNum (Fin (23522 / 10000))
       \<and> field (default_result objects ocrText) ''reasoning''
           = JStr ''Local analysis could not match features to the database.''
       \<and> (load_ok le0 \<and> detected le0 = Gives (ob # obs) \<longrightarrow>
            (\<exists>r. fst (runLocalObjectAnalysis_p0 h le0 u) = Inr r
                  \<and> field r ''confidence'' = JNum (Fin (4 / 10))))
       \<and> (load_ok le0 \<and> detected le0 = Gives [] \<longrightarrow>
            fst (runLocalObjectAnalysis_p0 h le0 u) = Inl NoObjectsDetected)
       \<and> (load_ok le0 \<and> detected le0 = Gives (ob # obs)
            \<and> dataset_p0 le0 = Status True (Gives (JObj ds0))
            \<and> (\<forall>t\<in>set (uniq (ob # obs)). t \<notin> set object_prototype)
            \<and> find (\<lambda>t. truthy (field ds0 t)) (uniq (ob # obs)) = None
            \<and> field ds0 ''auto_rickshaw'' = JObj m \<longrightarrow>
            (\<exists>r. fst (runLocalObjectAnalysis_p0 h le0 u) = Inr r
                  \<and> field r ''lat'' = field m ''lat'' \<and> field r ''lng'' = field m ''lng''))"
proof -
  let ?ts = "unique_terms objects (ocr_words ocrText)"
  let ?r = "match_dataset h (dataset_json le) ?ts (ocr_words ocrText)
              (default_result objects ocrText)"
  have a: "fst (runLocalObjectAnalysis h le u) = Inr ?r"
    using assms by (rule run_local_returns)
  have c1: "(\<forall>t\<in>set ?ts. t \<notin> set object_prototype)
          \<and> dataset_json le = Status True (Gives (JObj ds))
          \<and> find (\<lambda>t. truthy (field ds t)) ?ts = Some k \<and> k \<noteq> [] \<longrightarrow>
            (\<exists>r. fst (runLocalObjectAnalysis h le u) = Inr r
                  \<and> field r ''confidence''
                      = JNum (Fin (if k \<in> set (ocr_words ocrText) then 7 / 10 else 4 / 10)))"
  proof (intro impI, elim conjE)
    assume n: "\<forall>t\<in>set ?ts. t \<notin> set object_prototype"
      and d: "dataset_json le = Status True (Gives (JObj ds))"
      and f: "find (\<lambda>t. truthy (field ds t)) ?ts = Some k" and k: "k \<noteq> []"
    have "?r = apply_match h k (field ds k) (k \<in> set (ocr_words ocrText))
                 (default_result objects ocrText)"
      unfolding d by (rule match_dataset_some [OF n f k])
    then have "field ?r ''confidence''
                 = JNum (Fin (if k \<in> set (ocr_words ocrText) then 7 / 10 else 4 / 10))"
      by (simp only: apply_match_confidence)
    with a show "\<exists>r. fst (runLocalObjectAnalysis h le u) = Inr r
                  \<and> field r ''confidence''
                      = JNum (Fin (if k \<in> set (ocr_words ocrText) then 7 / 10 else 4 / 10))"
      by blast
  qed
  have c2: "(\<forall>t\<in>set ?ts. t \<notin> set object_prototype)
          \<and> dataset_json le = Status True (Gives (JObj ds))
          \<and> find (\<lambda>t. truthy (field ds t)) ?ts = None \<longrightarrow>
            fst (runLocalObjectAnalysis h le u) = Inr (default_result objects ocrText)"
  proof (intro impI, elim conjE)
    assume n: "\<forall>t\<in>set ?ts. t \<notin> set object_prototype"
      and d: "dataset_json le = Status True (Gives (JObj ds))"
      and f: "find (\<lambda>t. truthy (field ds t)) ?ts = None"
    have "?r = default_result objects ocrText"
      unfolding d by (rule match_dataset_none [OF n f])
    with a show "fst (runLocalObjectAnalysis h le u) = Inr (default_result objects ocrText)"
      by simp
  qed
  have c3: "dataset_json le = FetchFails \<or> dataset_json le = Status False body
            \<or> dataset_json le = Status True Throws \<longrightarrow>
            fst (runLocalObjectAnalysis h le u) = Inr (default_result objects ocrText)"
  proof
    assume "dataset_json le = FetchFails \<or> dataset_json le = Status False body
            \<or> dataset_json le = Status True Throws"
    then have "?r = default_result objects ocrText"
      by (elim disjE) (simp_all only: match_dataset_failed)
    with a show "fst (runLocalObjectAnalysis h le u) = Inr (default_result objects ocrText)"
      by simp
  qed
  have p1: "load_ok le0 \<and> detected le0 = Gives (ob # obs) \<longrightarrow>
            (\<exists>r. fst (runLocalObjectAnalysis_p0 h le0 u) = Inr r
                  \<and> field r ''confidence'' = JNum (Fin (4 / 10)))"
    using run_local_p0_confidence [of le0 ob obs h u] by (intro impI) (elim conjE)
  have p2: "load_ok le0 \<and> detected le0 = Gives [] \<longrightarrow>
            fst (runLocalObjectAnalysis_p0 h le0 u) = Inl NoObjectsDetected"
    using run_local_p0_empty [of le0 h u] by (intro impI) (elim conjE)
  have p3: "load_ok le0 \<and> detected le0 = Gives (ob # obs)
            \<and> dataset_p0 le0 = Status True (Gives (JObj ds0))
            \<and> (\<forall>t\<in>set (uniq (ob # obs)). t \<notin> set object_prototype)
            \<and> find (\<lambda>t. truthy (field ds0 t)) (uniq (ob # obs)) = None
            \<and> field ds0 ''auto_rickshaw'' = JObj m \<longrightarrow>
            (\<exists>r. fst (runLocalObjectAnalysis_p0 h le0 u) = Inr r
                  \<and> field r ''lat'' = field m ''lat'' \<and> field r ''lng'' = field m ''lng'')"
    using run_local_p0_rickshaw [of le0 ob obs ds0 m h u] by (intro impI) (elim conjE)
  show ?thesis
    by (intro conjI c1 c2 c3 default_fields(1) default_fields(2) default_fields(3)
          default_fields(4) p1 p2 p3)
qed


theorem local_confidence_witness:
  "unique_terms [''temple''] (ocr_words ''HANOI'') = [''temple'', ''hanoi'']
   \<and> ''temple'' \<notin> set object_prototype \<and> ''hanoi'' \<notin> set object_prototype
   \<and> (case fst (runLocalObjectAnalysis host0 local_hanoi_only page0) of
      Inr r \<Rightarrow> field r ''confidence'' | Inl e \<Rightarrow> JUndef) = JNum (Fin (7 / 10))
   \<and> (case fst (runLocalObjectAnalysis host0 local_temple_hanoi page0) of
      Inr r \<Rightarrow> field r ''confidence'' | Inl e \<Rightarrow> JUndef) = JNum (Fin (4 / 10))
   \<and> (case fst (runLocalObjectAnalysis host0 local_no_key page0) of
      Inr r \<Rightarrow> field r ''confidence'' | Inl e \<Rightarrow> JUndef) = JNum (Fin (2 / 10))
   \<and> fst (runLocalObjectAnalysis host0 local_404 page0) = Inr (default_result [''temple''] ''HANOI'')
   \<and> field (default_result [''temple''] ''HANOI'') ''confidence'' = JNum (Fin (2 / 10))
   \<and> (case fst (runLocalObjectAnalysis_p0 host0 local_p0_nomatch page0) of
      Inr r \<Rightarrow> field r ''lat'' | Inl e \<Rightarrow> JUndef) = JNum (Fin 28)"
proof -
  have r1: "recognised local_hanoi_only = Gives ([\<lparr>className = Some ''Temple'', pclass = None\<rparr>], ''HANOI'')"
    by (simp add: local_hanoi_only_def)
  have r2: "recognised local_temple_hanoi = Gives ([\<lparr>className = Some ''Temple'', pclass = None\<rparr>], ''HANOI'')"
    by (simp add: local_temple_hanoi_def)
  have r3: "recognised local_404 = Gives ([\<lparr>className = Some ''Temple'', pclass = None\<rparr>], ''HANOI'')"
    by (simp add: local_404_def)
  have r4: "recognised local_no_key = Gives ([\<lparr>className = Some ''Temple'', pclass = None\<rparr>], ''HANOI'')"
    by (simp add: local_no_key_def)
  have d1: "dataset_json local_hanoi_only = Status True (Gives (JObj [(''hanoi'', place 21 105 ''Hanoi'')]))"
    by (simp add: local_hanoi_only_def)
  have d2: "dataset_json local_temple_hanoi = Status True (Gives (JObj
              [(''hanoi'', place 21 105 ''Hanoi''), (''temple'', place 16 107 ''Hue'')]))"
    by (simp add: local_temple_hanoi_def two_places_def)
  have d3: "dataset_json local_404 = Status False Throws"
    by (simp add: local_404_def)
  have d4: "dataset_json local_no_key = Status True (Gives (JObj [(''paris'', place 48 2 ''Paris'')]))"
    by (simp add: local_no_key_def)
  have ts: "unique_terms [''temple''] (ocr_words ''HANOI'') = [''temple'', ''hanoi'']"
    by (simp add: hanoi_words temple_hanoi_terms)
  have n: "\<forall>t\<in>set (unique_terms [''temple''] (ocr_words ''HANOI'')). t \<notin> set object_prototype"
    unfolding ts by (simp add: object_prototype_def)
  have f1: "find (\<lambda>t. truthy (field [(''hanoi'', place 21 105 ''Hanoi'')] t))
              (unique_terms [''temple''] (ocr_words ''HANOI'')) = Some ''hanoi''"
    unfolding ts by (simp add: field_def place_def)
  have f2: "find (\<lambda>t. truthy (field [(''hanoi'', place 21 105 ''Hanoi''),
                                       (''temple'', place 16 107 ''Hue'')] t))
              (unique_terms [''temple''] (ocr_words ''HANOI'')) = Some ''temple''"
    unfolding ts by (simp add: field_def place_def)
  have f4: "find (\<lambda>t. truthy (field [(''paris'', place 48 2 ''Paris'')] t))
              (unique_terms [''temple''] (ocr_words ''HANOI'')) = None"
    unfolding ts by (simp add: field_def place_def)
  have w: "''hanoi'' \<in> set (ocr_words ''HANOI'')" "''temple'' \<notin> set (ocr_words ''HANOI'')"
    "''hanoi'' \<noteq> []" "''temple'' \<noteq> []"
    by (simp_all add: hanoi_words)
  have p0: "load_ok local_p0_nomatch" "detected local_p0_nomatch = Gives [''person'']"
    "dataset_p0 local_p0_nomatch = Status True (Gives (JObj [(''auto_rickshaw'', place 28 77 ''Delhi'')]))"
    "\<forall>t\<in>set (uniq [''person'']). t \<notin> set object_prototype"
    "find (\<lambda>t. truthy (field [(''auto_rickshaw'', place 28 77 ''Delhi'')] t)) (uniq [''person'']) = None"
    "field [(''auto_rickshaw'', place 28 77 ''Delhi'')] ''auto_rickshaw''
       = JObj [(''lat'', JNum (Fin 28)), (''lng'', JNum (Fin 77)), (''city'', JStr ''Delhi''),
           (''country'', JStr ''Vietnam''), (''reasoning'', JStr ''Known landmark.'')]"
    by (simp_all add: local_p0_nomatch_def uniq_def field_def place_def object_prototype_def)
  have a: "(case fst (runLocalObjectAnalysis host0 local_hanoi_only page0) of
      Inr r \<Rightarrow> field r ''confidence'' | Inl e \<Rightarrow> JUndef) = JNum (Fin (7 / 10))"
    using local_confidence [OF r1 temple_labels, of "[(''hanoi'', place 21 105 ''Hanoi'')]"
        "''hanoi''" host0 page0, THEN conjunct1] n d1 f1 w
    by auto
  have b: "(case fst (runLocalObjectAnalysis host0 local_temple_hanoi page0) of
      Inr r \<Rightarrow> field r ''confidence'' | Inl e \<Rightarrow> JUndef) = JNum (Fin (4 / 10))"
    using local_confidence [OF r2 temple_labels, of "[(''hanoi'', place 21 105 ''Hanoi''),
        (''temple'', place 16 107 ''Hue'')]" "''temple''" host0 page0, THEN conjunct1] n d2 f2 w
    by auto
  have c: "fst (runLocalObjectAnalysis host0 local_404 page0) = Inr (default_result [''temple''] ''HANOI'')"
    using local_confidence [OF r3 temple_labels, of _ _ host0 page0 Throws,
        THEN conjunct2, THEN conjunct2, THEN conjunct1] d3
    by blast
  have d: "field (default_result [''temple''] ''HANOI'') ''confidence'' = JNum (Fin (2 / 10))"
    using local_confidence [OF r3 temple_labels, of _ _ host0 page0,
        THEN conjunct2, THEN conjunct2, THEN conjunct2, THEN conjunct1] .
  have g: "fst (runLocalObjectAnalysis host0 local_no_key page0)
             = Inr (default_result [''temple''] ''HANOI'')"
    using local_confidence [OF r4 temple_labels, of "[(''paris'', place 48 2 ''Paris'')]" _
        host0 page0, THEN conjunct2, THEN conjunct1] n d4 f4
    by blast
  have g': "(case fst (runLocalObjectAnalysis host0 local_no_key page0) of
      Inr r \<Rightarrow> field r ''confidence'' | Inl e \<Rightarrow> JUndef) = JNum (Fin (2 / 10))"
    unfolding g using d by simp
  have e0: "\<exists>r. fst (runLocalObjectAnalysis_p0 host0 local_p0_nomatch page0) = Inr r
              \<and> field r ''lat'' = field [(''lat'', JNum (Fin 28)), (''lng'', JNum (Fin 77)),
                     (''city'', JStr ''Delhi''), (''country'', JStr ''Vietnam''),
                     (''reasoning'', JStr ''Known landmark.'')] ''lat''"
    using local_confidence [OF r3 temple_labels, where h = host0 and u = page0
        and ?le0.0 = local_p0_nomatch and ob = "''person''" and obs = "[]"
        and ?ds0.0 = "[(''auto_rickshaw'', place 28 77 ''Delhi'')]"
        and m = "[(''lat'', JNum (Fin 28)), (''lng'', JNum (Fin 77)), (''city'', JStr ''Delhi''),
           (''country'', JStr ''Vietnam''), (''reasoning'', JStr ''Known landmark.'')]"] p0
    by blast
  have e: "(case fst (runLocalObjectAnalysis_p0 host0 local_p0_nomatch page0) of
      Inr r \<Rightarrow> field r ''lat'' | Inl e \<Rightarrow> JUndef) = JNum (Fin 28)"
    using e0 by (auto simp: field_def)
  have n': "''temple'' \<notin> set object_prototype" "''hanoi'' \<notin> set object_prototype"
    by (simp_all add: object_prototype_def)
  from ts n' a b c d g' e show ?thesis by blast
qed

text \<open>
  C6, as stated, fails on \<^verbatim>\<open>src/unnamed/part_000\<close>: when the dataset answers 404
  the guess has confidence 0.4, not 0.2; and with no matching key the guess is the
  dataset's \<^verbatim>\<open>auto_rickshaw\<close> entry, again with confidence 0.4.
\<close>

theorem local_default_counterexample:
  "dataset_p0 local_p0_404 = Status False Throws
   \<and> (case fst (runLocalObjectAnalysis_p0 host0 local_p0_404 page0) of
        Inr r \<Rightarrow> field r ''confidence'' | Inl e \<Rightarrow> JUndef) = JNum (Fin (4 / 10))
   \<and> JNum (Fin (4 / 10)) \<noteq> JNum (Fin (2 / 10))
   \<and> (case fst (runLocalObjectAnalysis_p0 host0 local_p0_nomatch page0) of
        Inr r \<Rightarrow> field r ''lat'' | Inl e \<Rightarrow> JUndef) = JNum (Fin 28)
   \<and> (case fst (runLocalObjectAnalysis_p0 host0 local_p0_nomatch page0) of
        Inr r \<Rightarrow> field r ''confidence'' | Inl e \<Rightarrow> JUndef) = JNum (Fin (4 / 10))"
proof -
  have "dataset_p0 local_p0_404 = Status False Throws"
    by (simp add: local_p0_404_def)
  then show ?thesis
    by (simp add: local_p0_404_result local_p0_nomatch_result field_def)
qed

text \<open>
  C7 at a classifier label \<^verbatim>\<open>Temple\<close> and a recognised text \<^verbatim>\<open>HANOI\<close>, both
  keys of the dataset. For all inputs the candidate list is the distinct classifier
  labels followed by the recognised words not among them, so the labels come first: the
  match is \<^verbatim>\<open>temple\<close>, with confidence 0.4, although \<^verbatim>\<open>hanoi\<close> is a key too.
\<close>

theorem classifier_label_first:
  "unique_terms objects ws = uniq objects @ uniq_from objects ws
   \<and> labels [\<lparr>className = Some ''Temple'', pclass = None\<rparr>] = Inr [''temple'']
   \<and> ocr_words ''HANOI'' = [''hanoi'']
   \<and> unique_terms [''temple''] (ocr_words ''HANOI'') = [''temple'', ''hanoi'']
   \<and> truthy (field [(''hanoi'', place 21 105 ''Hanoi''), (''temple'', place 16 107 ''Hue'')] ''hanoi'')
   \<and> (case fst (runLocalObjectAnalysis host0 local_temple_hanoi page0) of
        Inr r \<Rightarrow> field r ''city'' | Inl e \<Rightarrow> JUndef) = JStr ''Hue''
   \<and> (case fst (runLocalObjectAnalysis host0 local_temple_hanoi page0) of
        Inr r \<Rightarrow> field r ''confidence'' | Inl e \<Rightarrow> JUndef) = JNum (Fin (4 / 10))"
proof -
  have r2: "recognised local_temple_hanoi = Gives ([\<lparr>className = Some ''Temple'', pclass = None\<rparr>], ''HANOI'')"
    by (simp add: local_temple_hanoi_def)
  have d2: "dataset_json local_temple_hanoi = Status True (Gives (JObj
              [(''hanoi'', place 21 105 ''Hanoi''), (''temple'', place 16 107 ''Hue'')]))"
    by (simp add: local_temple_hanoi_def two_places_def)
  have f2: "find (\<lambda>t. truthy (field [(''hanoi'', place 21 105 ''Hanoi''),
                                       (''temple'', place 16 107 ''Hue'')] t)) [''temple'', ''hanoi'']
              = Some ''temple''"
    by (simp add: field_def place_def)
  have n2: "\<forall>t\<in>set [''temple'', ''hanoi'']. t \<notin> set object_prototype"
    by (simp add: object_prototype_def)
  have m: "fst (runLocalObjectAnalysis host0 local_temple_hanoi page0) =
       Inr (apply_match host0 ''temple'' (place 16 107 ''Hue'') False (default_result [''temple''] ''HANOI''))"
    by (simp add: run_local_returns [OF r2 temple_labels] d2 hanoi_words temple_hanoi_terms
          match_dataset_some [OF n2 f2] field_def)
  have c: "field (apply_match host0 ''temple'' (place 16 107 ''Hue'') False
                    (default_result [''temple''] ''HANOI'')) ''city'' = JStr ''Hue''"
    by (simp add: apply_match_def field_def update_conv' place_def)
  have t: "truthy (field [(''hanoi'', place 21 105 ''Hanoi''), (''temple'', place 16 107 ''Hue'')] ''hanoi'')"
    by (simp add: field_def place_def)
  have e1: "(case fst (runLocalObjectAnalysis host0 local_temple_hanoi page0) of
        Inr r \<Rightarrow> field r ''city'' | Inl e \<Rightarrow> JUndef) = JStr ''Hue''"
    by (simp add: m c)
  have e2: "(case fst (runLocalObjectAnalysis host0 local_temple_hanoi page0) of
        Inr r \<Rightarrow> field r ''confidence'' | Inl e \<Rightarrow> JUndef) = JNum (Fin (4 / 10))"
    by (simp add: m apply_match_confidence)
  have e3: "unique_terms [''temple''] (ocr_words ''HANOI'') = [''temple'', ''hanoi'']"
    by (simp add: hanoi_words temple_hanoi_terms)
  from e1 e2 e3 t temple_labels hanoi_words unique_terms_labels_first [of objects ws]
  show ?thesis by blast
qed

end
